theory Spec2Isabelle
  imports Complex_Main
begin

section \<open>CosmicPCAxisTagger: the data\<close>

text \<open>
  The embedding follows \<^verbatim>\<open>cosmic::CosmicPCAxisTagger::produce\<close> of
  \<^verbatim>\<open>larana/CosmicRemoval/CosmicPCAxisTagger_module.cc\<close>.

  Numbers. The numbers an event and the module hold (eigenvalues, positions, hit times,
  detector sizes) are finite and are real numbers here. A number the code computes is a
  \<open>double\<close>: a real number or NaN. NaN arises where the code takes the square root of a
  negative eigenvalue; arithmetic with NaN gives NaN and every comparison with NaN is false.
  Rounding, the narrowing of a \<^verbatim>\<open>double\<close> to a \<^verbatim>\<open>float\<close>, and overflow are not represented.

  Of \<^verbatim>\<open>anab::CosmicTagID_t\<close> only the kinds this module assigns are listed. A record holds
  the members and accessors of a class that \<^verbatim>\<open>produce\<close> reads, under their names.
\<close>

datatype double = NaN | Fin real

fun d_plus :: "double \<Rightarrow> double \<Rightarrow> double" where
  "d_plus (Fin a) (Fin b) = Fin (a + b)"
| "d_plus _ _ = NaN"

fun d_minus :: "double \<Rightarrow> double \<Rightarrow> double" where
  "d_minus (Fin a) (Fin b) = Fin (a - b)"
| "d_minus _ _ = NaN"

fun d_times :: "double \<Rightarrow> double \<Rightarrow> double" where
  "d_times (Fin a) (Fin b) = Fin (a * b)"
| "d_times _ _ = NaN"

fun d_less :: "double \<Rightarrow> double \<Rightarrow> bool" where
  "d_less (Fin a) (Fin b) \<longleftrightarrow> a < b"
| "d_less _ _ \<longleftrightarrow> False"

fun d_sqrt :: "double \<Rightarrow> double" where
  "d_sqrt (Fin a) = (if a < 0 then NaN else Fin (sqrt a))"
| "d_sqrt NaN = NaN"

datatype CosmicTagID_t =
    kNotTagged
  | kOutsideDrift_Partial
  | kGeometry_XX
  | kGeometry_YY
  | kGeometry_XY
  | kGeometry_XZ
  | kGeometry_YZ
  | kGeometry_ZZ
  | kGeometry_X
  | kGeometry_Y
  | kGeometry_Z

text \<open>\<^verbatim>\<open>TVector3\<close>, with the operations the module uses.\<close>

record TVector3 =
  fX :: double
  fY :: double
  fZ :: double

definition TVector3_minus :: "TVector3 \<Rightarrow> TVector3 \<Rightarrow> TVector3" where
  "TVector3_minus a b =
     \<lparr>fX = d_minus (fX a) (fX b), fY = d_minus (fY a) (fY b), fZ = d_minus (fZ a) (fZ b)\<rparr>"

definition TVector3_plus :: "TVector3 \<Rightarrow> TVector3 \<Rightarrow> TVector3" where
  "TVector3_plus a b =
     \<lparr>fX = d_plus (fX a) (fX b), fY = d_plus (fY a) (fY b), fZ = d_plus (fZ a) (fZ b)\<rparr>"

definition TVector3_scale :: "double \<Rightarrow> TVector3 \<Rightarrow> TVector3" where
  "TVector3_scale a p = \<lparr>fX = d_times a (fX p), fY = d_times a (fY p), fZ = d_times a (fZ p)\<rparr>"

definition Dot :: "TVector3 \<Rightarrow> TVector3 \<Rightarrow> double" where
  "Dot p q =
     d_plus (d_plus (d_times (fX p) (fX q)) (d_times (fY p) (fY q))) (d_times (fZ p) (fZ q))"

text \<open>
  A \<^verbatim>\<open>double[3]\<close> of an input object, and the 3 by 3 matrix of eigenvectors (row 0 first).
\<close>

type_synonym double3 = "real \<times> real \<times> real"

fun elem0 :: "'a \<times> 'a \<times> 'a \<Rightarrow> 'a" where "elem0 (a, b, c) = a"
fun elem1 :: "'a \<times> 'a \<times> 'a \<Rightarrow> 'a" where "elem1 (a, b, c) = b"
fun elem2 :: "'a \<times> 'a \<times> 'a \<Rightarrow> 'a" where "elem2 (a, b, c) = c"

definition toTVector3 :: "double3 \<Rightarrow> TVector3" where
  "toTVector3 a = \<lparr>fX = Fin (elem0 a), fY = Fin (elem1 a), fZ = Fin (elem2 a)\<rparr>"

record PCAxis =
  getID :: nat
  getEigenValues :: double3
  getEigenVectors :: "double3 \<times> double3 \<times> double3"
  getAvePosition :: double3

record Hit =
  PeakTimeMinusRMS :: real
  PeakTimePlusRMS :: real

record Cluster =
  ID :: int

record SpacePoint =
  XYZ :: double3

record PFParticle =
  Self :: nat

record CosmicTag =
  endPt1 :: "double list"
  endPt2 :: "double list"
  fCosmicScore :: real
  fCosmicType :: CosmicTagID_t

text \<open>The data members of the module that \<^verbatim>\<open>produce\<close> reads; the constructor sets them.\<close>

record Config =
  fDetectorWidthTicks :: int
  fTPCXBoundary :: real
  fTPCYBoundary :: real
  fTPCZBoundary :: real
  fDetHalfHeight :: real
  fDetWidth :: real
  fDetLength :: real

datatype error = out_of_range | art_Exception

text \<open>
  An \<^verbatim>\<open>art::FindManyP\<close>. When the association product was read, it is the table of its rows
  and the checked accessor \<^verbatim>\<open>at(i)\<close> throws when the index is not below the size. When the
  association product is absent or invalid, nothing in the module tests it, and what
  \<^verbatim>\<open>at(i)\<close> then does is decided by code of the framework that is not part of the source:
  it is a parameter, carried by \<open>Unreadable\<close>.
\<close>

datatype 'b FindManyP = Rows "'b list list" | Unreadable "nat \<Rightarrow> error + 'b list"

fun FindManyP_at :: "'b FindManyP \<Rightarrow> nat \<Rightarrow> error + 'b list" where
  "FindManyP_at (Rows rows) i = (if i < length rows then Inr (rows ! i) else Inl out_of_range)"
| "FindManyP_at (Unreadable atAbsent) i = atAbsent i"

text \<open>
  What one event holds for the module. A handle is \<^term>\<open>None\<close> when \<^verbatim>\<open>isValid()\<close> is false.
\<close>

record Event =
  pfParticleHandle :: "PFParticle list option"
  clusterHandle :: "Cluster list option"
  pcaxisHandle :: "PCAxis list option"
  pfPartToPCAxisAssns :: "PCAxis FindManyP"
  spacePointAssnVec :: "SpacePoint FindManyP"
  clusterAssns :: "Cluster FindManyP"
  clusterHitAssns :: "Hit FindManyP"

text \<open>
  The three products put into the event. An association names the tag by its index in
  \<^verbatim>\<open>cosmicTagPFParticleVector\<close>; the particle is named by its key, the axis by its record.
\<close>

record Products =
  cosmicTagPFParticleVector :: "CosmicTag list"
  assnOutCosmicTagPFParticle :: "(nat \<times> nat) list"
  assnOutCosmicTagPCAxis :: "(PCAxis \<times> nat) list"

text \<open>An \<^verbatim>\<open>int\<close> passed where a \<^verbatim>\<open>size_t\<close> (64 bits) is expected.\<close>

definition size_t_of_int :: "int \<Rightarrow> nat" where
  "size_t_of_int i = nat (i mod 2 ^ 64)"

section \<open>Choosing the axis\<close>

definition orderAxes :: "PCAxis list \<Rightarrow> PCAxis list" where
  "orderAxes pcAxisVec =
     (if length pcAxisVec > 1 \<and> getID (hd pcAxisVec) > getID (last pcAxisVec)
      then rev pcAxisVec else pcAxisVec)"

definition eigenVal0 :: "PCAxis \<Rightarrow> double" where
  "eigenVal0 pcAxis = d_sqrt (Fin (elem0 (getEigenValues pcAxis)))"

definition maxArcLen :: "PCAxis \<Rightarrow> double" where
  "maxArcLen pcAxis = d_times (Fin 3) (eigenVal0 pcAxis)"

definition vertexPosition :: "PCAxis \<Rightarrow> TVector3" where
  "vertexPosition pcAxis = toTVector3 (getAvePosition pcAxis)"

definition vertexDirection :: "PCAxis \<Rightarrow> TVector3" where
  "vertexDirection pcAxis = toTVector3 (elem0 (getEigenVectors pcAxis))"

section \<open>Hits out of time\<close>

record TagState =
  isCosmic :: int
  tag_id :: CosmicTagID_t

definition outOfTime :: "Config \<Rightarrow> Hit \<Rightarrow> bool" where
  "outOfTime cfg hit \<longleftrightarrow>
     PeakTimeMinusRMS hit < real_of_int (fDetectorWidthTicks cfg)
     \<or> PeakTimePlusRMS hit > 2 * real_of_int (fDetectorWidthTicks cfg)"

text \<open>
  The loop over the hits of one cluster. The second component is what the loop prints
  when \<^verbatim>\<open>dumpMe\<close> is set: one entry for each hit the loop reaches, before that hit is tested.
\<close>

fun scanHits :: "Config \<Rightarrow> bool \<Rightarrow> Hit list \<Rightarrow> TagState \<times> Hit list \<Rightarrow> TagState \<times> Hit list" where
  "scanHits cfg dump [] (st, out) = (st, out)"
| "scanHits cfg dump (hit # hitVec) (st, out) =
     (let out' = (if dump then out @ [hit] else out)
      in if outOfTime cfg hit
         then (st\<lparr>isCosmic := 1, tag_id := kOutsideDrift_Partial\<rparr>, out')
         else scanHits cfg dump hitVec (st, out'))"

text \<open>The loop over the clusters of one particle; the hits are looked up by \<^verbatim>\<open>cluster->ID()\<close>.\<close>

fun scanClusters ::
  "Config \<Rightarrow> bool \<Rightarrow> Hit FindManyP \<Rightarrow> Cluster list \<Rightarrow> TagState \<times> Hit list
     \<Rightarrow> error + (TagState \<times> Hit list)" where
  "scanClusters cfg dump hitAssns [] s = Inr s"
| "scanClusters cfg dump hitAssns (cluster # clusterVec) s =
     (case FindManyP_at hitAssns (size_t_of_int (ID cluster)) of
        Inl e \<Rightarrow> Inl e
      | Inr hitVec \<Rightarrow> scanClusters cfg dump hitAssns clusterVec (scanHits cfg dump hitVec s))"

definition dumpMe :: bool where
  "dumpMe = False"

section \<open>The extent along the axis\<close>

definition transRMS :: "PCAxis \<Rightarrow> double" where
  "transRMS pcAxis =
     d_sqrt (Fin ((elem1 (getEigenValues pcAxis))\<^sup>2 + (elem1 (getEigenValues pcAxis))\<^sup>2))"

record Extent =
  arcLengthToFirstHit :: double
  arcLengthToLastHit :: double
  pcAxisStart :: TVector3
  pcAxisEnd :: TVector3

definition arcLenToHit :: "PCAxis \<Rightarrow> SpacePoint \<Rightarrow> double" where
  "arcLenToHit pcAxis spacePoint =
     Dot (TVector3_minus (toTVector3 (XYZ spacePoint)) (vertexPosition pcAxis))
         (vertexDirection pcAxis)"

definition extentStep :: "PCAxis \<Rightarrow> Extent \<Rightarrow> SpacePoint \<Rightarrow> Extent" where
  "extentStep pcAxis ext spacePoint =
     (let spacePointPos = toTVector3 (XYZ spacePoint);
          arcLen = arcLenToHit pcAxis spacePoint;
          ext1 = (if d_less arcLen (arcLengthToFirstHit ext)
                  then ext\<lparr>arcLengthToFirstHit := arcLen, pcAxisStart := spacePointPos\<rparr>
                  else ext)
      in if d_less (arcLengthToLastHit ext1) arcLen
         then ext1\<lparr>arcLengthToLastHit := arcLen, pcAxisEnd := spacePointPos\<rparr>
         else ext1)"

fun findExtent :: "PCAxis \<Rightarrow> SpacePoint list \<Rightarrow> Extent \<Rightarrow> Extent" where
  "findExtent pcAxis [] ext = ext"
| "findExtent pcAxis (spacePoint # spacePointVec) ext =
     findExtent pcAxis spacePointVec (extentStep pcAxis ext spacePoint)"

definition axisExtent :: "PCAxis \<Rightarrow> Extent" where
  "axisExtent pcAxis =
     \<lparr>arcLengthToFirstHit = Fin 9999, arcLengthToLastHit = Fin (- 9999),
      pcAxisStart = TVector3_minus (vertexPosition pcAxis)
                      (TVector3_scale (maxArcLen pcAxis) (vertexDirection pcAxis)),
      pcAxisEnd = TVector3_plus (vertexPosition pcAxis)
                      (TVector3_scale (maxArcLen pcAxis) (vertexDirection pcAxis))\<rparr>"

section \<open>The detector boundaries\<close>

definition nearX :: "Config \<Rightarrow> double \<Rightarrow> bool" where
  "nearX cfg x \<longleftrightarrow>
     d_less (d_minus (Fin (fDetWidth cfg)) x) (Fin (fTPCXBoundary cfg))
     \<or> d_less x (Fin (fTPCXBoundary cfg))"

definition nearY :: "Config \<Rightarrow> double \<Rightarrow> bool" where
  "nearY cfg y \<longleftrightarrow>
     d_less (d_minus (Fin (fDetHalfHeight cfg)) y) (Fin (fTPCYBoundary cfg))
     \<or> d_less (d_plus (Fin (fDetHalfHeight cfg)) y) (Fin (fTPCYBoundary cfg))"

definition nearZ :: "Config \<Rightarrow> double \<Rightarrow> bool" where
  "nearZ cfg z \<longleftrightarrow>
     d_less (d_minus (Fin (fDetLength cfg)) z) (Fin (fTPCZBoundary cfg))
     \<or> d_less z (Fin (fTPCZBoundary cfg))"

definition checkBoundaries :: "Config \<Rightarrow> TVector3 \<Rightarrow> TVector3 \<Rightarrow> TagState \<Rightarrow> TagState" where
  "checkBoundaries cfg trackEndPt1 trackEndPt2 st =
     (let nBdX0 = nearX cfg (fX trackEndPt1); nBdX1 = nearX cfg (fX trackEndPt2);
          nBdY0 = nearY cfg (fY trackEndPt1); nBdY1 = nearY cfg (fY trackEndPt2);
          nBdZ0 = nearZ cfg (fZ trackEndPt1); nBdZ1 = nearZ cfg (fZ trackEndPt2);
          exitEnd1 = (nBdX0 \<or> nBdY0);
          exitEnd2 = (nBdX1 \<or> nBdY1);
          exitEndZ1 = (exitEnd1 \<and> nBdZ1);
          exitEndZ2 = (exitEnd1 \<and> nBdZ0)
      in if (exitEnd1 \<and> exitEnd2) \<or> exitEndZ1 \<or> exitEndZ2 then
           st\<lparr>isCosmic := 2,
              tag_id := (if nBdX0 \<and> nBdX1 then kGeometry_XX
                         else if nBdY0 \<and> nBdY1 then kGeometry_YY
                         else if (nBdX0 \<or> nBdX1) \<and> (nBdY0 \<or> nBdY1) then kGeometry_XY
                         else if (nBdX0 \<or> nBdX1) \<and> (nBdZ0 \<or> nBdZ1) then kGeometry_XZ
                         else kGeometry_YZ)\<rparr>
         else if nBdZ0 \<and> nBdZ1 then
           st\<lparr>isCosmic := 3, tag_id := kGeometry_ZZ\<rparr>
         else if (nBdX0 \<or> nBdY0 \<or> nBdZ0) \<noteq> (nBdX1 \<or> nBdY1 \<or> nBdZ1) then
           st\<lparr>isCosmic := 4,
              tag_id := (if nBdX0 \<or> nBdX1 then kGeometry_X
                         else if nBdY0 \<or> nBdY1 then kGeometry_Y
                         else if nBdZ0 \<or> nBdZ1 then kGeometry_Z
                         else tag_id st)\<rparr>
         else st)"

section \<open>One particle\<close>

text \<open>
  The state of one particle after the boundary section: the level and the tag kind, and
  the two end points as they are read into \<^verbatim>\<open>trackEndPt1_X\<close> ... \<^verbatim>\<open>trackEndPt2_Z\<close>.
\<close>

definition checkTPC ::
  "Config \<Rightarrow> PCAxis \<Rightarrow> SpacePoint list \<Rightarrow> TagState \<Rightarrow> TagState \<times> TVector3 \<times> TVector3" where
  "checkTPC cfg pcAxis spacePointVec st =
     (let ext0 = axisExtent pcAxis
      in if isCosmic st = 0 \<and> spacePointVec \<noteq> [] then
           if d_less (Fin 0) (eigenVal0 pcAxis) \<and> d_less (Fin 0) (transRMS pcAxis) then
             (let ext = findExtent pcAxis spacePointVec ext0
              in (checkBoundaries cfg (pcAxisStart ext) (pcAxisEnd ext) st,
                  pcAxisStart ext, pcAxisEnd ext))
           else (st, pcAxisStart ext0, pcAxisEnd ext0)
         else (st, pcAxisStart ext0, pcAxisEnd ext0))"

definition cosmicScore :: "int \<Rightarrow> real" where
  "cosmicScore level =
     (let score = (if level > 0 then 1 else 0)
      in if level = 3 then 0.4 else if level = 4 then 0.5 else score)"

definition makeTag :: "TagState \<times> TVector3 \<times> TVector3 \<Rightarrow> CosmicTag" where
  "makeTag r =
     (case r of (st, trackEndPt1, trackEndPt2) \<Rightarrow>
        \<lparr>endPt1 = [fX trackEndPt1, fY trackEndPt1, fZ trackEndPt1],
         endPt2 = [fX trackEndPt2, fY trackEndPt2, fZ trackEndPt2],
         fCosmicScore = cosmicScore (isCosmic st),
         fCosmicType = tag_id st\<rparr>)"

definition initialState :: TagState where
  "initialState = \<lparr>isCosmic = 0, tag_id = kNotTagged\<rparr>"

text \<open>
  The tag of one particle, from its chosen axis, the state the scan of its hits left, and
  its space points.
\<close>

definition tagOf :: "Config \<Rightarrow> PCAxis \<Rightarrow> SpacePoint list \<Rightarrow> TagState \<Rightarrow> CosmicTag" where
  "tagOf cfg pcAxis spacePointVec st = makeTag (checkTPC cfg pcAxis spacePointVec st)"

text \<open>\<^verbatim>\<open>util::CreateAssn\<close> with its default index: the association is to the last tag made.\<close>

definition CreateAssn :: "CosmicTag list \<Rightarrow> 'b \<Rightarrow> ('b \<times> nat) list \<Rightarrow> ('b \<times> nat) list" where
  "CreateAssn tags b assn = assn @ [(b, length tags - 1)]"

fun CreateAssns :: "CosmicTag list \<Rightarrow> 'b list \<Rightarrow> ('b \<times> nat) list \<Rightarrow> ('b \<times> nat) list" where
  "CreateAssns tags [] assn = assn"
| "CreateAssns tags (b # bs) assn = CreateAssns tags bs (CreateAssn tags b assn)"

text \<open>
  The part of the loop body that follows the choice of the axis: the clusters and their
  hits, then the space points, then the tag.
\<close>

definition particleTag :: "Config \<Rightarrow> Event \<Rightarrow> nat \<Rightarrow> PCAxis \<Rightarrow> error + CosmicTag" where
  "particleTag cfg evt pfPartIdx pcAxis =
     (case FindManyP_at (clusterAssns evt) pfPartIdx of
        Inl e \<Rightarrow> Inl e
      | Inr clusterVec \<Rightarrow>
         (case scanClusters cfg dumpMe (clusterHitAssns evt) clusterVec (initialState, []) of
            Inl e \<Rightarrow> Inl e
          | Inr (st, out) \<Rightarrow>
             (case FindManyP_at (spacePointAssnVec evt) pfPartIdx of
                Inl e \<Rightarrow> Inl e
              | Inr spacePointVec \<Rightarrow> Inr (tagOf cfg pcAxis spacePointVec st))))"

text \<open>The body of the loop over the particles, for the particle with key \<open>pfPartIdx\<close>.\<close>

definition tagPFParticle :: "Config \<Rightarrow> Event \<Rightarrow> nat \<Rightarrow> Products \<Rightarrow> error + Products" where
  "tagPFParticle cfg evt pfPartIdx prods =
     (case FindManyP_at (pfPartToPCAxisAssns evt) pfPartIdx of
        Inl e \<Rightarrow> Inl e
      | Inr axes \<Rightarrow>
          if axes = [] then Inr prods
          else
            (let pcAxisVec = orderAxes axes
             in case particleTag cfg evt pfPartIdx (hd pcAxisVec) of
                  Inl e \<Rightarrow> Inl e
                | Inr tag \<Rightarrow>
                   (let tags = cosmicTagPFParticleVector prods @ [tag]
                    in Inr \<lparr>cosmicTagPFParticleVector = tags,
                            assnOutCosmicTagPFParticle =
                              CreateAssn tags pfPartIdx (assnOutCosmicTagPFParticle prods),
                            assnOutCosmicTagPCAxis =
                              CreateAssns tags pcAxisVec (assnOutCosmicTagPCAxis prods)\<rparr>)))"

fun pfParticleLoop :: "Config \<Rightarrow> Event \<Rightarrow> nat list \<Rightarrow> Products \<Rightarrow> error + Products" where
  "pfParticleLoop cfg evt [] prods = Inr prods"
| "pfParticleLoop cfg evt (pfPartIdx # rest) prods =
     (case tagPFParticle cfg evt pfPartIdx prods of
        Inl e \<Rightarrow> Inl e
      | Inr prods' \<Rightarrow> pfParticleLoop cfg evt rest prods')"

definition emptyProducts :: Products where
  "emptyProducts = \<lparr>cosmicTagPFParticleVector = [], assnOutCosmicTagPFParticle = [],
                    assnOutCosmicTagPCAxis = []\<rparr>"

definition produce :: "Config \<Rightarrow> Event \<Rightarrow> error + Products" where
  "produce cfg evt =
     (case pfParticleHandle evt of
        None \<Rightarrow> Inr emptyProducts
      | Some pfParticles \<Rightarrow>
          if pcaxisHandle evt = None \<or> clusterHandle evt = None then Inr emptyProducts
          else pfParticleLoop cfg evt [0 ..< length pfParticles] emptyProducts)"

section \<open>The score of a tag kind, as the specification tabulates it\<close>

definition scoreOfKind :: "CosmicTagID_t \<Rightarrow> real" where
  "scoreOfKind k =
     (if k = kNotTagged then 0
      else if k = kGeometry_ZZ then 0.4
      else if k = kGeometry_X \<or> k = kGeometry_Y \<or> k = kGeometry_Z then 0.5
      else 1)"

text \<open>The hits the loop over one cluster reaches: all up to the first hit out of time.\<close>

definition reachedHits :: "Config \<Rightarrow> Hit list \<Rightarrow> Hit list" where
  "reachedHits cfg hitVec =
     takeWhile (\<lambda>h. \<not> outOfTime cfg h) hitVec
     @ take 1 (dropWhile (\<lambda>h. \<not> outOfTime cfg h) hitVec)"

text \<open>
  The end points the specification gives for a particle whose space points are not used:
  the mean of the axis minus, and plus, three times the square root of the dominant
  eigenvalue along the principal direction, as real numbers.
\<close>

definition meanMinus3Sigma :: "PCAxis \<Rightarrow> real list" where
  "meanMinus3Sigma pcAxis =
     (let m = getAvePosition pcAxis; d = elem0 (getEigenVectors pcAxis);
          e0 = elem0 (getEigenValues pcAxis)
      in [elem0 m - 3 * sqrt e0 * elem0 d, elem1 m - 3 * sqrt e0 * elem1 d,
          elem2 m - 3 * sqrt e0 * elem2 d])"

definition meanPlus3Sigma :: "PCAxis \<Rightarrow> real list" where
  "meanPlus3Sigma pcAxis =
     (let m = getAvePosition pcAxis; d = elem0 (getEigenVectors pcAxis);
          e0 = elem0 (getEigenValues pcAxis)
      in [elem0 m + 3 * sqrt e0 * elem0 d, elem1 m + 3 * sqrt e0 * elem1 d,
          elem2 m + 3 * sqrt e0 * elem2 d])"

text \<open>
  The signed arc length of a space point, as the specification gives it: its displacement
  from the mean of the axis, dotted with the principal direction, as a real number.
\<close>

definition arcLength :: "PCAxis \<Rightarrow> SpacePoint \<Rightarrow> real" where
  "arcLength pcAxis p =
     (let m = getAvePosition pcAxis; d = elem0 (getEigenVectors pcAxis)
      in (elem0 (XYZ p) - elem0 m) * elem0 d + (elem1 (XYZ p) - elem1 m) * elem1 d
         + (elem2 (XYZ p) - elem2 m) * elem2 d)"

text \<open>
  The first element of a list at which \<open>f\<close> is least, and the first at which it is greatest.
\<close>

definition firstMinimal :: "('a \<Rightarrow> real) \<Rightarrow> 'a list \<Rightarrow> 'a" where
  "firstMinimal f xs = hd (filter (\<lambda>x. \<forall>y\<in>set xs. f x \<le> f y) xs)"

definition firstMaximal :: "('a \<Rightarrow> real) \<Rightarrow> 'a list \<Rightarrow> 'a" where
  "firstMaximal f xs = hd (filter (\<lambda>x. \<forall>y\<in>set xs. f y \<le> f x) xs)"

text \<open>The coordinates of a space point, as an end point of a tag lists them.\<close>

definition coordinates :: "SpacePoint \<Rightarrow> double list" where
  "coordinates p = [Fin (elem0 (XYZ p)), Fin (elem1 (XYZ p)), Fin (elem2 (XYZ p))]"

section \<open>Example inputs\<close>

definition cfg0 :: Config where
  "cfg0 = \<lparr>fDetectorWidthTicks = 3200, fTPCXBoundary = 5, fTPCYBoundary = 5,
           fTPCZBoundary = 5, fDetHalfHeight = 116, fDetWidth = 256, fDetLength = 1036\<rparr>"

definition axis3 :: PCAxis where
  "axis3 = \<lparr>getID = 3, getEigenValues = (4, 1, 1),
            getEigenVectors = ((1, 0, 0), (0, 1, 0), (0, 0, 1)),
            getAvePosition = (128, 0, 500)\<rparr>"

definition axis5 :: PCAxis where
  "axis5 = \<lparr>getID = 5, getEigenValues = (9, 1, 1),
            getEigenVectors = ((0, 0, 1), (0, 1, 0), (1, 0, 0)),
            getAvePosition = (100, 10, 400)\<rparr>"

definition axisWide :: PCAxis where
  "axisWide = \<lparr>getID = 7, getEigenValues = (1849, 1, 1),
               getEigenVectors = ((1, 0, 0), (0, 1, 0), (0, 0, 1)),
               getAvePosition = (128, 0, 500)\<rparr>"

text \<open>Axes with a negative, a zero and a positive dominant eigenvalue; the last two have
  no transverse spread.\<close>

definition axisNegative :: PCAxis where
  "axisNegative = \<lparr>getID = 8, getEigenValues = (- 4, 1, 1),
                   getEigenVectors = ((1, 0, 0), (0, 1, 0), (0, 0, 1)),
                   getAvePosition = (128, 0, 500)\<rparr>"

definition axisZero :: PCAxis where
  "axisZero = \<lparr>getID = 9, getEigenValues = (0, 0, 0),
               getEigenVectors = ((1, 0, 0), (0, 1, 0), (0, 0, 1)),
               getAvePosition = (128, 0, 500)\<rparr>"

definition axisThin :: PCAxis where
  "axisThin = \<lparr>getID = 10, getEigenValues = (4, 0, 0),
               getEigenVectors = ((1, 0, 0), (0, 1, 0), (0, 0, 1)),
               getAvePosition = (128, 0, 500)\<rparr>"

definition hitInTime :: Hit where
  "hitInTime = \<lparr>PeakTimeMinusRMS = 4000, PeakTimePlusRMS = 4010\<rparr>"

definition hitEarly :: Hit where
  "hitEarly = \<lparr>PeakTimeMinusRMS = 3000, PeakTimePlusRMS = 3010\<rparr>"

definition hitLate :: Hit where
  "hitLate = \<lparr>PeakTimeMinusRMS = 6395, PeakTimePlusRMS = 6405\<rparr>"

definition flagged :: TagState where
  "flagged = \<lparr>isCosmic = 1, tag_id = kOutsideDrift_Partial\<rparr>"

definition pointAt :: "real \<Rightarrow> real \<Rightarrow> real \<Rightarrow> SpacePoint" where
  "pointAt x y z = \<lparr>XYZ = (x, y, z)\<rparr>"

definition evtA :: Event where
  "evtA = \<lparr>pfParticleHandle = Some [\<lparr>Self = 0\<rparr>, \<lparr>Self = 1\<rparr>, \<lparr>Self = 2\<rparr>],
           clusterHandle = Some [\<lparr>ID = 0\<rparr>, \<lparr>ID = 1\<rparr>],
           pcaxisHandle = Some [axis3, axis5],
           pfPartToPCAxisAssns = Rows [ [axis5, axis3], [], [axis3]],
           spacePointAssnVec = Rows [ [pointAt 1 0 500, pointAt 255 0 500], [], []],
           clusterAssns = Rows [ [\<lparr>ID = 0\<rparr>], [], [\<lparr>ID = 0\<rparr>, \<lparr>ID = 1\<rparr>]],
           clusterHitAssns = Rows [ [hitInTime], [hitInTime, hitEarly, hitInTime]]\<rparr>"

definition tagA0 :: CosmicTag where
  "tagA0 = \<lparr>endPt1 = [Fin 1, Fin 0, Fin 500], endPt2 = [Fin 255, Fin 0, Fin 500],
            fCosmicScore = 1, fCosmicType = kGeometry_XX\<rparr>"

definition tagA2 :: CosmicTag where
  "tagA2 = \<lparr>endPt1 = [Fin 122, Fin 0, Fin 500], endPt2 = [Fin 134, Fin 0, Fin 500],
            fCosmicScore = 1, fCosmicType = kOutsideDrift_Partial\<rparr>"

definition prodsA :: Products where
  "prodsA = \<lparr>cosmicTagPFParticleVector = [tagA0, tagA2],
             assnOutCosmicTagPFParticle = [(0, 0), (2, 1)],
             assnOutCosmicTagPCAxis = [(axis3, 0), (axis5, 0), (axis3, 1)]\<rparr>"

text \<open>
  The event \<^const>\<open>evtA\<close> with its association of space points absent, for two ways the
  accessor of the absent association may behave: it throws, or it gives an empty row. And
  the same event with its association of axes absent.
\<close>

definition atThrows :: "nat \<Rightarrow> error + 'b list" where
  "atThrows i = Inl art_Exception"

definition atEmptyRow :: "nat \<Rightarrow> error + 'b list" where
  "atEmptyRow i = Inr []"

definition evtThrows :: Event where
  "evtThrows = evtA\<lparr>spacePointAssnVec := Unreadable atThrows\<rparr>"

definition evtNoAxisAssns :: Event where
  "evtNoAxisAssns = evtA\<lparr>pfPartToPCAxisAssns := Unreadable atThrows\<rparr>"

definition evtEmptyRow :: Event where
  "evtEmptyRow = evtA\<lparr>spacePointAssnVec := Unreadable atEmptyRow\<rparr>"

definition tagN0 :: CosmicTag where
  "tagN0 = \<lparr>endPt1 = [Fin 122, Fin 0, Fin 500], endPt2 = [Fin 134, Fin 0, Fin 500],
            fCosmicScore = 0, fCosmicType = kNotTagged\<rparr>"

definition prodsN :: Products where
  "prodsN = \<lparr>cosmicTagPFParticleVector = [tagN0, tagA2],
             assnOutCosmicTagPFParticle = [(0, 0), (2, 1)],
             assnOutCosmicTagPCAxis = [(axis3, 0), (axis5, 0), (axis3, 1)]\<rparr>"

section \<open>The scan of the hits\<close>

lemma scanHits_fst:
  "fst (scanHits cfg dump hitVec (st, out)) =
     (if \<exists>h\<in>set hitVec. outOfTime cfg h
      then st\<lparr>isCosmic := 1, tag_id := kOutsideDrift_Partial\<rparr> else st)"
  by (induction hitVec arbitrary: out) (simp_all add: Let_def)

lemma scanHits_snd:
  "snd (scanHits cfg dump hitVec (st, out)) =
     (if dump then out @ reachedHits cfg hitVec else out)"
  by (cases dump; induction hitVec arbitrary: out) (simp_all add: Let_def reachedHits_def)

lemma scanHits_eq:
  "scanHits cfg dump hitVec (st, out) =
     (if \<exists>h\<in>set hitVec. outOfTime cfg h
      then st\<lparr>isCosmic := 1, tag_id := kOutsideDrift_Partial\<rparr> else st,
      if dump then out @ reachedHits cfg hitVec else out)"
  by (simp add: prod_eq_iff scanHits_fst scanHits_snd)

lemma scanClusters_total:
  "\<forall>c\<in>set clusterVec. size_t_of_int (ID c) < length hitAssns
   \<Longrightarrow> \<exists>s'. scanClusters cfg dump (Rows hitAssns) clusterVec s = Inr s'"
proof (induction clusterVec arbitrary: s)
  case Nil
  show ?case by simp
next
  case (Cons c cs)
  then have "size_t_of_int (ID c) < length hitAssns"
    and "\<forall>c\<in>set cs. size_t_of_int (ID c) < length hitAssns" by simp_all
  then show ?case
    using Cons.IH [of "scanHits cfg dump (hitAssns ! size_t_of_int (ID c)) s"]
    by simp
qed

lemma scanClusters_state:
  "scanClusters cfg dump (Rows hitAssns) clusterVec (st, out) = Inr (st', out')
   \<Longrightarrow> st' = (if \<exists>c\<in>set clusterVec. \<exists>h\<in>set (hitAssns ! size_t_of_int (ID c)). outOfTime cfg h
             then st\<lparr>isCosmic := 1, tag_id := kOutsideDrift_Partial\<rparr> else st)"
proof (induction clusterVec arbitrary: st out)
  case Nil
  then show ?case by simp
next
  case (Cons c cs)
  let ?hv = "hitAssns ! size_t_of_int (ID c)"
  obtain st1 out1 where s1: "scanHits cfg dump ?hv (st, out) = (st1, out1)"
    by (cases "scanHits cfg dump ?hv (st, out)")
  have st1: "st1 = (if \<exists>h\<in>set ?hv. outOfTime cfg h
                    then st\<lparr>isCosmic := 1, tag_id := kOutsideDrift_Partial\<rparr> else st)"
    using scanHits_fst [of cfg dump ?hv st out] s1 by simp
  from Cons.prems have inr: "size_t_of_int (ID c) < length hitAssns"
    by (simp split: if_splits)
  with Cons.prems s1 have "scanClusters cfg dump (Rows hitAssns) cs (st1, out1) = Inr (st', out')"
    by simp
  from Cons.IH [OF this] show ?case
    by (simp add: st1)
qed

lemma scanClusters_out:
  "scanClusters cfg dump (Rows hitAssns) clusterVec (st, out) = Inr (st', out')
   \<Longrightarrow> out' = (if dump
       then out @ concat (map (\<lambda>c. reachedHits cfg (hitAssns ! size_t_of_int (ID c))) clusterVec)
       else out)"
proof (induction clusterVec arbitrary: st out)
  case Nil
  then show ?case by simp
next
  case (Cons c cs)
  let ?hv = "hitAssns ! size_t_of_int (ID c)"
  obtain st1 out1 where s1: "scanHits cfg dump ?hv (st, out) = (st1, out1)"
    by (cases "scanHits cfg dump ?hv (st, out)")
  have out1: "out1 = (if dump then out @ reachedHits cfg ?hv else out)"
    using scanHits_snd [of cfg dump ?hv st out] s1 by simp
  from Cons.prems have inr: "size_t_of_int (ID c) < length hitAssns"
    by (simp split: if_splits)
  with Cons.prems s1 have "scanClusters cfg dump (Rows hitAssns) cs (st1, out1) = Inr (st', out')"
    by simp
  from Cons.IH [OF this] show ?case
    by (simp add: out1)
qed

lemma scanClusters_levels:
  "scanClusters cfg dump hitAssns clusterVec (st, out) = Inr (st', out')
   \<Longrightarrow> st' = st \<or> st' = st\<lparr>isCosmic := 1, tag_id := kOutsideDrift_Partial\<rparr>"
proof (induction clusterVec arbitrary: st out)
  case Nil
  then show ?case by simp
next
  case (Cons c cs)
  from Cons.prems obtain hitVec where
    "scanClusters cfg dump hitAssns cs (scanHits cfg dump hitVec (st, out)) = Inr (st', out')"
    by (auto split: sum.splits)
  then have "scanClusters cfg dump hitAssns cs
      (if \<exists>h\<in>set hitVec. outOfTime cfg h
       then st\<lparr>isCosmic := 1, tag_id := kOutsideDrift_Partial\<rparr> else st,
       if dump then out @ reachedHits cfg hitVec else out) = Inr (st', out')"
    by (simp only: scanHits_eq)
  from Cons.IH [OF this] show ?case
    by (auto split: if_splits)
qed

lemma scanned_levels:
  "scanClusters cfg dump hitAssns clusterVec (initialState, out) = Inr (st, out')
   \<Longrightarrow> st = initialState \<or> st = \<lparr>isCosmic = 1, tag_id = kOutsideDrift_Partial\<rparr>"
proof -
  assume "scanClusters cfg dump hitAssns clusterVec (initialState, out) = Inr (st, out')"
  from scanClusters_levels [OF this] show ?thesis
    by (simp add: initialState_def)
qed

lemma reachedHits_stop:
  "outOfTime cfg hit \<Longrightarrow> \<forall>h\<in>set pre. \<not> outOfTime cfg h
   \<Longrightarrow> reachedHits cfg (pre @ hit # post) = pre @ [hit]"
  by (simp add: reachedHits_def takeWhile_append2 dropWhile_append2)

lemma reachedHits_all:
  "\<forall>h\<in>set hitVec. \<not> outOfTime cfg h \<Longrightarrow> reachedHits cfg hitVec = hitVec"
  by (induction hitVec) (simp_all add: reachedHits_def)

section \<open>The extent along the axis\<close>

lemma arcLenToHit_Fin: "arcLenToHit pcAxis p = Fin (arcLength pcAxis p)"
  by (simp add: arcLenToHit_def arcLength_def Dot_def TVector3_minus_def toTVector3_def
        vertexPosition_def vertexDirection_def Let_def)

lemma extentStep_first:
  "arcLengthToFirstHit ext = Fin b
   \<Longrightarrow> arcLengthToFirstHit (extentStep pcAxis ext p) = Fin (min (arcLength pcAxis p) b)"
  by (simp add: extentStep_def Let_def arcLenToHit_Fin)

lemma extentStep_start:
  "arcLengthToFirstHit ext = Fin b
   \<Longrightarrow> pcAxisStart (extentStep pcAxis ext p)
        = (if arcLength pcAxis p < b then toTVector3 (XYZ p) else pcAxisStart ext)"
  by (simp add: extentStep_def Let_def arcLenToHit_Fin)

lemma extentStep_last:
  "arcLengthToLastHit ext = Fin b
   \<Longrightarrow> arcLengthToLastHit (extentStep pcAxis ext p) = Fin (max (arcLength pcAxis p) b)"
  by (simp add: extentStep_def Let_def arcLenToHit_Fin)

lemma extentStep_end:
  "arcLengthToLastHit ext = Fin b
   \<Longrightarrow> pcAxisEnd (extentStep pcAxis ext p)
        = (if b < arcLength pcAxis p then toTVector3 (XYZ p) else pcAxisEnd ext)"
  by (simp add: extentStep_def Let_def arcLenToHit_Fin)

lemma axisExtent_bounds:
  "arcLengthToFirstHit (axisExtent pcAxis) = Fin 9999"
  "arcLengthToLastHit (axisExtent pcAxis) = Fin (- 9999)"
  by (simp_all add: axisExtent_def)

lemma eigenVal0_positive:
  "d_less (Fin 0) (eigenVal0 pcAxis) \<longleftrightarrow> 0 < elem0 (getEigenValues pcAxis)"
  by (simp add: eigenVal0_def)

lemma eigenVal0_cases:
  "0 \<le> elem0 (getEigenValues pcAxis)
   \<Longrightarrow> eigenVal0 pcAxis = Fin (sqrt (elem0 (getEigenValues pcAxis)))"
  "elem0 (getEigenValues pcAxis) < 0 \<Longrightarrow> eigenVal0 pcAxis = NaN"
  by (simp_all add: eigenVal0_def)

lemma transRMS_positive:
  "d_less (Fin 0) (transRMS pcAxis) \<longleftrightarrow> elem1 (getEigenValues pcAxis) \<noteq> 0"
  by (simp add: transRMS_def)

text \<open>The end points computed from the axis alone, as lists of coordinates.\<close>

lemma axisExtent_lists:
  assumes "0 \<le> elem0 (getEigenValues pcAxis)"
  shows "(let p = pcAxisStart (axisExtent pcAxis) in [fX p, fY p, fZ p])
           = map Fin (meanMinus3Sigma pcAxis)"
    and "(let p = pcAxisEnd (axisExtent pcAxis) in [fX p, fY p, fZ p])
           = map Fin (meanPlus3Sigma pcAxis)"
  by (simp_all add: axisExtent_def TVector3_minus_def TVector3_plus_def TVector3_scale_def
        vertexPosition_def vertexDirection_def maxArcLen_def eigenVal0_cases(1) [OF assms]
        toTVector3_def meanMinus3Sigma_def meanPlus3Sigma_def Let_def)

lemma axisExtent_lists_NaN:
  assumes "elem0 (getEigenValues pcAxis) < 0"
  shows "(let p = pcAxisStart (axisExtent pcAxis) in [fX p, fY p, fZ p]) = [NaN, NaN, NaN]"
    and "(let p = pcAxisEnd (axisExtent pcAxis) in [fX p, fY p, fZ p]) = [NaN, NaN, NaN]"
  by (simp_all add: axisExtent_def TVector3_minus_def TVector3_plus_def TVector3_scale_def
        vertexPosition_def vertexDirection_def maxArcLen_def eigenVal0_cases(2) [OF assms]
        toTVector3_def Let_def)

lemma firstMinimal_Cons_le:
  "\<forall>y\<in>set ps. f p \<le> f y \<Longrightarrow> firstMinimal f (p # ps) = p"
  by (simp add: firstMinimal_def)

lemma firstMinimal_Cons_gt:
  assumes "\<exists>q\<in>set ps. f q < f p"
  shows "firstMinimal f (p # ps) = firstMinimal f ps"
proof -
  have "filter (\<lambda>x. \<forall>y\<in>set (p # ps). f x \<le> f y) ps = filter (\<lambda>x. \<forall>y\<in>set ps. f x \<le> f y) ps"
  proof (rule filter_cong [OF refl])
    fix x assume "x \<in> set ps"
    from assms obtain q where q: "q \<in> set ps" "f q < f p" by blast
    show "(\<forall>y\<in>set (p # ps). f x \<le> f y) = (\<forall>y\<in>set ps. f x \<le> f y)"
    proof
      assume "\<forall>y\<in>set ps. f x \<le> f y"
      with q have "f x \<le> f p" by fastforce
      with \<open>\<forall>y\<in>set ps. f x \<le> f y\<close> show "\<forall>y\<in>set (p # ps). f x \<le> f y" by simp
    qed simp
  qed
  moreover from assms have "\<not> (\<forall>y\<in>set (p # ps). f p \<le> f y)" by fastforce
  ultimately show ?thesis
    unfolding firstMinimal_def filter.simps by (simp only: if_False)
qed

lemma firstMaximal_Cons_ge:
  "\<forall>y\<in>set ps. f y \<le> f p \<Longrightarrow> firstMaximal f (p # ps) = p"
  by (simp add: firstMaximal_def)

lemma firstMaximal_Cons_lt:
  assumes "\<exists>q\<in>set ps. f p < f q"
  shows "firstMaximal f (p # ps) = firstMaximal f ps"
proof -
  have "filter (\<lambda>x. \<forall>y\<in>set (p # ps). f y \<le> f x) ps = filter (\<lambda>x. \<forall>y\<in>set ps. f y \<le> f x) ps"
  proof (rule filter_cong [OF refl])
    fix x assume "x \<in> set ps"
    from assms obtain q where q: "q \<in> set ps" "f p < f q" by blast
    show "(\<forall>y\<in>set (p # ps). f y \<le> f x) = (\<forall>y\<in>set ps. f y \<le> f x)"
    proof
      assume "\<forall>y\<in>set ps. f y \<le> f x"
      with q have "f p \<le> f x" by fastforce
      with \<open>\<forall>y\<in>set ps. f y \<le> f x\<close> show "\<forall>y\<in>set (p # ps). f y \<le> f x" by simp
    qed simp
  qed
  moreover from assms have "\<not> (\<forall>y\<in>set (p # ps). f y \<le> f p)" by fastforce
  ultimately show ?thesis
    unfolding firstMaximal_def filter.simps by (simp only: if_False)
qed

lemma findExtent_start:
  "arcLengthToFirstHit ext = Fin b
   \<Longrightarrow> pcAxisStart (findExtent pcAxis sp ext) =
     (if \<exists>p\<in>set sp. arcLength pcAxis p < b
      then toTVector3 (XYZ (firstMinimal (arcLength pcAxis) sp))
      else pcAxisStart ext)"
proof (induction sp arbitrary: ext b)
  case Nil
  show ?case by simp
next
  case (Cons p ps)
  let ?f = "arcLength pcAxis"
  let ?ext' = "extentStep pcAxis ext p"
  note b' = extentStep_first [OF Cons.prems, of pcAxis p]
  have IH: "pcAxisStart (findExtent pcAxis (p # ps) ext) =
     (if \<exists>q\<in>set ps. ?f q < min (?f p) b
      then toTVector3 (XYZ (firstMinimal ?f ps))
      else if ?f p < b then toTVector3 (XYZ p) else pcAxisStart ext)"
    by (simp only: findExtent.simps Cons.IH [OF b'] extentStep_start [OF Cons.prems])
  show ?case
  proof (cases "\<exists>q\<in>set ps. ?f q < min (?f p) b")
    case True
    then have "\<exists>q\<in>set ps. ?f q < ?f p" and "\<exists>q\<in>set (p # ps). ?f q < b"
      by auto
    with True show ?thesis
      unfolding IH by (simp add: firstMinimal_Cons_gt)
  next
    case False
    show ?thesis
    proof (cases "?f p < b")
      case True
      with False have "\<forall>y\<in>set ps. ?f p \<le> ?f y" by (auto simp: not_less)
      with True False show ?thesis
        unfolding IH by (simp add: firstMinimal_Cons_le)
    next
      case notless: False
      with False have "\<not> (\<exists>q\<in>set (p # ps). ?f q < b)" by (auto simp: not_less)
      with notless False show ?thesis
        unfolding IH by simp
    qed
  qed
qed

lemma findExtent_end:
  "arcLengthToLastHit ext = Fin b
   \<Longrightarrow> pcAxisEnd (findExtent pcAxis sp ext) =
     (if \<exists>p\<in>set sp. b < arcLength pcAxis p
      then toTVector3 (XYZ (firstMaximal (arcLength pcAxis) sp))
      else pcAxisEnd ext)"
proof (induction sp arbitrary: ext b)
  case Nil
  show ?case by simp
next
  case (Cons p ps)
  let ?f = "arcLength pcAxis"
  let ?ext' = "extentStep pcAxis ext p"
  note b' = extentStep_last [OF Cons.prems, of pcAxis p]
  have IH: "pcAxisEnd (findExtent pcAxis (p # ps) ext) =
     (if \<exists>q\<in>set ps. max (?f p) b < ?f q
      then toTVector3 (XYZ (firstMaximal ?f ps))
      else if b < ?f p then toTVector3 (XYZ p) else pcAxisEnd ext)"
    by (simp only: findExtent.simps Cons.IH [OF b'] extentStep_end [OF Cons.prems])
  show ?case
  proof (cases "\<exists>q\<in>set ps. max (?f p) b < ?f q")
    case True
    then have "\<exists>q\<in>set ps. ?f p < ?f q" and "\<exists>q\<in>set (p # ps). b < ?f q"
      by auto
    with True show ?thesis
      unfolding IH by (simp add: firstMaximal_Cons_lt)
  next
    case False
    show ?thesis
    proof (cases "b < ?f p")
      case True
      with False have "\<forall>y\<in>set ps. ?f y \<le> ?f p" by (auto simp: not_less)
      with True False show ?thesis
        unfolding IH by (simp add: firstMaximal_Cons_ge)
    next
      case notless: False
      with False have "\<not> (\<exists>q\<in>set (p # ps). b < ?f q)" by (auto simp: not_less)
      with notless False show ?thesis
        unfolding IH by simp
    qed
  qed
qed

lemma findExtent_start_kept:
  "arcLengthToFirstHit ext = Fin b \<Longrightarrow> \<forall>p\<in>set sp. b \<le> arcLength pcAxis p
   \<Longrightarrow> pcAxisStart (findExtent pcAxis sp ext) = pcAxisStart ext"
  by (auto simp: findExtent_start not_less [symmetric])

lemma findExtent_end_kept:
  "arcLengthToLastHit ext = Fin b \<Longrightarrow> \<forall>p\<in>set sp. arcLength pcAxis p \<le> b
   \<Longrightarrow> pcAxisEnd (findExtent pcAxis sp ext) = pcAxisEnd ext"
  by (auto simp: findExtent_end not_less [symmetric])

lemma exists_minimal:
  fixes f :: "'a \<Rightarrow> real"
  assumes "xs \<noteq> []"
  shows "\<exists>x\<in>set xs. \<forall>y\<in>set xs. f x \<le> f y"
proof -
  from assms have ne: "f ` set xs \<noteq> {}" and fin: "finite (f ` set xs)" by simp_all
  from Min_in [OF fin ne] obtain x where x: "x \<in> set xs" "f x = Min (f ` set xs)" by auto
  have "\<forall>y\<in>set xs. f x \<le> f y" using x(2) fin by simp
  with x(1) show ?thesis by blast
qed

lemma firstMinimal_split:
  fixes f :: "'a \<Rightarrow> real"
  assumes "xs \<noteq> []"
  shows "\<exists>ys zs. xs = ys @ firstMinimal f xs # zs
           \<and> (\<forall>y\<in>set ys. f (firstMinimal f xs) < f y)
           \<and> (\<forall>z\<in>set zs. f (firstMinimal f xs) \<le> f z)"
proof -
  let ?P = "\<lambda>x. \<forall>y\<in>set xs. f x \<le> f y"
  from exists_minimal [OF assms] have ex: "\<exists>x\<in>set xs. ?P x" .
  have "\<exists>ys x zs. xs = ys @ x # zs \<and> ?P x \<and> (\<forall>y\<in>set ys. \<not> ?P y)"
    using ex by (rule split_list_first_prop [where P = ?P])
  then obtain ys x zs where split: "xs = ys @ x # zs" and px: "?P x"
    and before: "\<forall>y\<in>set ys. \<not> ?P y"
    by blast
  from before have "filter ?P ys = []" by (simp add: filter_empty_conv)
  with px have hd: "hd (filter ?P (ys @ x # zs)) = x" by simp
  then have fm: "firstMinimal f xs = x"
    unfolding firstMinimal_def using split by simp
  have "\<forall>y\<in>set ys. f x < f y"
  proof
    fix y assume "y \<in> set ys"
    with before obtain w where "w \<in> set xs" "f w < f y" by (auto simp: not_le)
    with px show "f x < f y" by fastforce
  qed
  moreover from px split have "\<forall>z\<in>set zs. f x \<le> f z" by simp
  ultimately have "xs = ys @ firstMinimal f xs # zs
      \<and> (\<forall>y\<in>set ys. f (firstMinimal f xs) < f y)
      \<and> (\<forall>z\<in>set zs. f (firstMinimal f xs) \<le> f z)"
    using split fm by simp
  then show ?thesis by (intro exI)
qed

lemma firstMaximal_split:
  fixes f :: "'a \<Rightarrow> real"
  assumes "xs \<noteq> []"
  shows "\<exists>ys zs. xs = ys @ firstMaximal f xs # zs
           \<and> (\<forall>y\<in>set ys. f y < f (firstMaximal f xs))
           \<and> (\<forall>z\<in>set zs. f z \<le> f (firstMaximal f xs))"
proof -
  have "firstMaximal f xs = firstMinimal (\<lambda>x. - f x) xs"
    by (simp add: firstMaximal_def firstMinimal_def)
  with firstMinimal_split [OF assms, of "\<lambda>x. - f x"] show ?thesis by simp
qed

lemma firstMinimal_least:
  fixes f :: "'a \<Rightarrow> real"
  assumes "xs \<noteq> []"
  shows "firstMinimal f xs \<in> set xs \<and> (\<forall>y\<in>set xs. f (firstMinimal f xs) \<le> f y)"
proof -
  from firstMinimal_split [OF assms, of f] obtain ys zs where
    "xs = ys @ firstMinimal f xs # zs"
    "\<forall>y\<in>set ys. f (firstMinimal f xs) < f y" "\<forall>z\<in>set zs. f (firstMinimal f xs) \<le> f z"
    by blast
  then show ?thesis
    by (metis Un_iff in_set_conv_decomp less_eq_real_def order_refl set_ConsD set_append)
qed

lemma firstMaximal_greatest:
  fixes f :: "'a \<Rightarrow> real"
  assumes "xs \<noteq> []"
  shows "firstMaximal f xs \<in> set xs \<and> (\<forall>y\<in>set xs. f y \<le> f (firstMaximal f xs))"
proof -
  have "firstMaximal f xs = firstMinimal (\<lambda>x. - f x) xs"
    by (simp add: firstMaximal_def firstMinimal_def)
  with firstMinimal_least [OF assms, of "\<lambda>x. - f x"] show ?thesis by simp
qed

lemma firstMinimal_set_eq:
  fixes f :: "'a \<Rightarrow> real"
  assumes "set xs' = set xs" and "inj_on f (set xs)" and "xs \<noteq> []"
  shows "firstMinimal f xs' = firstMinimal f xs"
proof -
  from assms(1,3) have ne': "xs' \<noteq> []" by auto
  note a = firstMinimal_least [OF assms(3), of f] and b = firstMinimal_least [OF ne', of f]
  from a b assms(1) have "f (firstMinimal f xs') = f (firstMinimal f xs)"
    by (intro antisym) auto
  with a b assms(1,2) show ?thesis by (auto dest: inj_onD)
qed

lemma firstMaximal_set_eq:
  fixes f :: "'a \<Rightarrow> real"
  assumes "set xs' = set xs" and "inj_on f (set xs)" and "xs \<noteq> []"
  shows "firstMaximal f xs' = firstMaximal f xs"
proof -
  from assms(1,3) have ne': "xs' \<noteq> []" by auto
  note a = firstMaximal_greatest [OF assms(3), of f] and b = firstMaximal_greatest [OF ne', of f]
  from a b assms(1) have "f (firstMaximal f xs') = f (firstMaximal f xs)"
    by (intro antisym) auto
  with a b assms(1,2) show ?thesis by (auto dest: inj_onD)
qed

lemma findExtent_order:
  assumes "set sp' = set sp" and "inj_on (arcLength pcAxis) (set sp)"
    and "arcLengthToFirstHit ext = Fin b" and "arcLengthToLastHit ext = Fin c"
  shows "pcAxisStart (findExtent pcAxis sp' ext) = pcAxisStart (findExtent pcAxis sp ext)"
    and "pcAxisEnd (findExtent pcAxis sp' ext) = pcAxisEnd (findExtent pcAxis sp ext)"
proof -
  show "pcAxisStart (findExtent pcAxis sp' ext) = pcAxisStart (findExtent pcAxis sp ext)"
  proof (cases "sp = []")
    case True
    with assms(1) show ?thesis by simp
  next
    case False
    from firstMinimal_set_eq [OF assms(1,2) False] show ?thesis
      by (simp add: findExtent_start [OF assms(3)] assms(1))
  qed
  show "pcAxisEnd (findExtent pcAxis sp' ext) = pcAxisEnd (findExtent pcAxis sp ext)"
  proof (cases "sp = []")
    case True
    with assms(1) show ?thesis by simp
  next
    case False
    from firstMaximal_set_eq [OF assms(1,2) False] show ?thesis
      by (simp add: findExtent_end [OF assms(4)] assms(1))
  qed
qed

lemma toTVector3_coordinates:
  "(let q = toTVector3 (XYZ p) in [fX q, fY q, fZ q]) = coordinates p"
  by (simp add: toTVector3_def coordinates_def)

section \<open>The tag of one particle\<close>

lemma checkTPC_skipped:
  "isCosmic st \<noteq> 0 \<or> spacePointVec = [] \<or> \<not> d_less (Fin 0) (eigenVal0 pcAxis)
     \<or> \<not> d_less (Fin 0) (transRMS pcAxis)
   \<Longrightarrow> checkTPC cfg pcAxis spacePointVec st
        = (st, pcAxisStart (axisExtent pcAxis), pcAxisEnd (axisExtent pcAxis))"
  by (auto simp: checkTPC_def Let_def)

lemma checkTPC_run:
  "isCosmic st = 0 \<Longrightarrow> spacePointVec \<noteq> [] \<Longrightarrow> d_less (Fin 0) (eigenVal0 pcAxis)
   \<Longrightarrow> d_less (Fin 0) (transRMS pcAxis)
   \<Longrightarrow> checkTPC cfg pcAxis spacePointVec st
        = (checkBoundaries cfg
             (pcAxisStart (findExtent pcAxis spacePointVec (axisExtent pcAxis)))
             (pcAxisEnd (findExtent pcAxis spacePointVec (axisExtent pcAxis))) st,
           pcAxisStart (findExtent pcAxis spacePointVec (axisExtent pcAxis)),
           pcAxisEnd (findExtent pcAxis spacePointVec (axisExtent pcAxis)))"
  by (simp add: checkTPC_def Let_def)

lemma tagOf_endPts:
  "endPt1 (tagOf cfg pcAxis spacePointVec st)
     = (let p = fst (snd (checkTPC cfg pcAxis spacePointVec st)) in [fX p, fY p, fZ p])"
  "endPt2 (tagOf cfg pcAxis spacePointVec st)
     = (let p = snd (snd (checkTPC cfg pcAxis spacePointVec st)) in [fX p, fY p, fZ p])"
  "fCosmicType (tagOf cfg pcAxis spacePointVec st)
     = tag_id (fst (checkTPC cfg pcAxis spacePointVec st))"
  "fCosmicScore (tagOf cfg pcAxis spacePointVec st)
     = cosmicScore (isCosmic (fst (checkTPC cfg pcAxis spacePointVec st)))"
  by (simp_all add: tagOf_def makeTag_def split: prod.splits)

lemma tagOf_skipped:
  assumes "isCosmic st \<noteq> 0 \<or> spacePointVec = [] \<or> \<not> d_less (Fin 0) (eigenVal0 pcAxis)
           \<or> \<not> d_less (Fin 0) (transRMS pcAxis)"
  shows "tagOf cfg pcAxis spacePointVec st =
           \<lparr>endPt1 = (let p = pcAxisStart (axisExtent pcAxis) in [fX p, fY p, fZ p]),
            endPt2 = (let p = pcAxisEnd (axisExtent pcAxis) in [fX p, fY p, fZ p]),
            fCosmicScore = cosmicScore (isCosmic st), fCosmicType = tag_id st\<rparr>"
  by (simp add: tagOf_def makeTag_def checkTPC_skipped [OF assms] Let_def)

lemma tagOf_skipped_Fin:
  assumes "isCosmic st \<noteq> 0 \<or> spacePointVec = [] \<or> \<not> d_less (Fin 0) (eigenVal0 pcAxis)
           \<or> \<not> d_less (Fin 0) (transRMS pcAxis)"
    and "0 \<le> elem0 (getEigenValues pcAxis)"
  shows "tagOf cfg pcAxis spacePointVec st =
           \<lparr>endPt1 = map Fin (meanMinus3Sigma pcAxis), endPt2 = map Fin (meanPlus3Sigma pcAxis),
            fCosmicScore = cosmicScore (isCosmic st), fCosmicType = tag_id st\<rparr>"
  unfolding tagOf_skipped [OF assms(1)] axisExtent_lists [OF assms(2)] ..

lemma tagOf_NaN:
  assumes "elem0 (getEigenValues pcAxis) < 0"
  shows "tagOf cfg pcAxis spacePointVec st =
           \<lparr>endPt1 = [NaN, NaN, NaN], endPt2 = [NaN, NaN, NaN],
            fCosmicScore = cosmicScore (isCosmic st), fCosmicType = tag_id st\<rparr>"
proof -
  from assms have "isCosmic st \<noteq> 0 \<or> spacePointVec = [] \<or> \<not> d_less (Fin 0) (eigenVal0 pcAxis)
           \<or> \<not> d_less (Fin 0) (transRMS pcAxis)"
    by (simp add: eigenVal0_positive)
  from tagOf_skipped [OF this] show ?thesis
    unfolding axisExtent_lists_NaN [OF assms] .
qed

lemma tagOf_order:
  assumes "set sp' = set sp" and "inj_on (arcLength pcAxis) (set sp)"
  shows "tagOf cfg pcAxis sp' st = tagOf cfg pcAxis sp st"
proof -
  from assms(1) have "sp' = [] \<longleftrightarrow> sp = []" by auto
  then show ?thesis
    by (simp add: tagOf_def checkTPC_def Let_def
          findExtent_order [OF assms axisExtent_bounds])
qed

lemma checkBoundaries_score:
  "isCosmic st = 0 \<Longrightarrow> tag_id st = kNotTagged
   \<Longrightarrow> cosmicScore (isCosmic (checkBoundaries cfg p q st))
       = scoreOfKind (tag_id (checkBoundaries cfg p q st))"
  by (simp add: checkBoundaries_def Let_def cosmicScore_def scoreOfKind_def)

lemma tagOf_score:
  "st = initialState \<or> st = \<lparr>isCosmic = 1, tag_id = kOutsideDrift_Partial\<rparr>
   \<Longrightarrow> fCosmicScore (tagOf cfg pcAxis spacePointVec st)
       = scoreOfKind (fCosmicType (tagOf cfg pcAxis spacePointVec st))"
  apply (erule disjE)
   apply (simp add: tagOf_def checkTPC_def makeTag_def Let_def checkBoundaries_score initialState_def)
   apply (simp add: cosmicScore_def scoreOfKind_def)
  apply (simp add: tagOf_def checkTPC_def makeTag_def Let_def cosmicScore_def scoreOfKind_def)
  done

lemma scoreOfKind_values: "scoreOfKind k \<in> {0, 0.4, 0.5, 1}"
  by (simp add: scoreOfKind_def)

section \<open>The loop over the particles\<close>

lemma CreateAssns_eq:
  "CreateAssns tags bs assn = assn @ map (\<lambda>b. (b, length tags - 1)) bs"
  by (induction bs arbitrary: assn) (simp_all add: CreateAssn_def)

lemma particleTag_Inr:
  assumes "particleTag cfg evt i pcAxis = Inr tag"
  shows "\<exists>clusterVec st out sp.
           FindManyP_at (clusterAssns evt) i = Inr clusterVec
           \<and> scanClusters cfg dumpMe (clusterHitAssns evt) clusterVec (initialState, [])
               = Inr (st, out)
           \<and> FindManyP_at (spacePointAssnVec evt) i = Inr sp
           \<and> tag = tagOf cfg pcAxis sp st"
  using assms by (auto simp: particleTag_def split: sum.splits)

lemma tagPFParticle_Inr:
  assumes "tagPFParticle cfg evt i prods = Inr prods'"
  shows "\<exists>axes. FindManyP_at (pfPartToPCAxisAssns evt) i = Inr axes \<and>
     (if axes = [] then prods' = prods
      else \<exists>tag. particleTag cfg evt i (hd (orderAxes axes)) = Inr tag
         \<and> prods' = \<lparr>cosmicTagPFParticleVector = cosmicTagPFParticleVector prods @ [tag],
                     assnOutCosmicTagPFParticle = assnOutCosmicTagPFParticle prods
                        @ [(i, length (cosmicTagPFParticleVector prods))],
                     assnOutCosmicTagPCAxis = assnOutCosmicTagPCAxis prods
                        @ map (\<lambda>a. (a, length (cosmicTagPFParticleVector prods)))
                            (orderAxes axes)\<rparr>)"
  using assms
  by (auto simp: tagPFParticle_def Let_def CreateAssns_eq CreateAssn_def
           split: if_splits sum.splits)

lemma pfParticleLoop_tags:
  assumes "pfParticleLoop cfg evt idxs prods = Inr prods'"
    and "\<forall>t\<in>set (cosmicTagPFParticleVector prods). Q t"
    and "\<And>i pcAxis tag. particleTag cfg evt i pcAxis = Inr tag \<Longrightarrow> Q tag"
  shows "\<forall>t\<in>set (cosmicTagPFParticleVector prods'). Q t"
  using assms(1,2)
proof (induction idxs arbitrary: prods)
  case Nil
  then show ?case by simp
next
  case (Cons i idxs)
  from Cons.prems(1) obtain p1 where p1: "tagPFParticle cfg evt i prods = Inr p1"
    and rest: "pfParticleLoop cfg evt idxs p1 = Inr prods'"
    by (auto split: sum.splits)
  have "\<forall>t\<in>set (cosmicTagPFParticleVector p1). Q t"
    using tagPFParticle_Inr [OF p1] Cons.prems(2) assms(3)
    by (auto split: if_splits)
  from Cons.IH [OF rest this] show ?case .
qed

lemma produce_tags:
  assumes "produce cfg evt = Inr prods"
    and "\<And>i pcAxis tag. particleTag cfg evt i pcAxis = Inr tag \<Longrightarrow> Q tag"
  shows "\<forall>t\<in>set (cosmicTagPFParticleVector prods). Q t"
proof (cases "pfParticleHandle evt = None \<or> pcaxisHandle evt = None \<or> clusterHandle evt = None")
  case True
  with assms(1) have "prods = emptyProducts"
    by (auto simp: produce_def split: option.splits)
  then show ?thesis by (simp add: emptyProducts_def)
next
  case False
  with assms(1) obtain pfs :: "PFParticle list" where
    "pfParticleLoop cfg evt [0 ..< length pfs] emptyProducts = Inr prods"
    by (auto simp: produce_def split: option.splits)
  from pfParticleLoop_tags [OF this _ assms(2)] show ?thesis
    by (simp add: emptyProducts_def)
qed

lemma particleTag_score:
  assumes "particleTag cfg evt i pcAxis = Inr tag"
  shows "fCosmicScore tag = scoreOfKind (fCosmicType tag)"
proof -
  from particleTag_Inr [OF assms] obtain clusterVec st out sp where
    scan: "scanClusters cfg dumpMe (clusterHitAssns evt) clusterVec (initialState, [])
             = Inr (st, out)"
    and tag: "tag = tagOf cfg pcAxis sp st"
    by blast
  from scanned_levels [OF scan] show ?thesis
    unfolding tag by (rule tagOf_score)
qed

lemma particleTag_total:
  assumes "clusterAssns evt = Rows clusters" and "spacePointAssnVec evt = Rows points"
    and "clusterHitAssns evt = Rows hits"
    and "i < length clusters" and "i < length points"
    and "\<forall>c\<in>set (clusters ! i). size_t_of_int (ID c) < length hits"
  shows "\<exists>tag. particleTag cfg evt i pcAxis = Inr tag"
proof -
  from scanClusters_total [OF assms(6)] obtain s' where
    "scanClusters cfg dumpMe (Rows hits) (clusters ! i) (initialState, []) = Inr s'"
    by blast
  with assms(1-5) show ?thesis
    by (cases s') (simp add: particleTag_def)
qed

lemma tagPFParticle_skip:
  "FindManyP_at (pfPartToPCAxisAssns evt) i = Inr [] \<Longrightarrow> tagPFParticle cfg evt i prods = Inr prods"
  by (simp add: tagPFParticle_def)

lemma tagPFParticle_total:
  assumes "pfPartToPCAxisAssns evt = Rows axes" and "i < length axes"
    and "clusterAssns evt = Rows clusters" and "spacePointAssnVec evt = Rows points"
    and "clusterHitAssns evt = Rows hits"
    and "i < length clusters" and "i < length points"
    and "\<forall>c\<in>set (clusters ! i). size_t_of_int (ID c) < length hits"
  shows "\<exists>prods'. tagPFParticle cfg evt i prods = Inr prods'"
proof -
  from particleTag_total [OF assms(3-8)] obtain tag where
    "particleTag cfg evt i (hd (orderAxes (axes ! i))) = Inr tag"
    by blast
  with assms(1,2) show ?thesis
    by (simp add: tagPFParticle_def Let_def)
qed

lemma pfParticleLoop_total:
  assumes "pfPartToPCAxisAssns evt = Rows axes"
    and "clusterAssns evt = Rows clusters" and "spacePointAssnVec evt = Rows points"
    and "clusterHitAssns evt = Rows hits"
    and "\<forall>i\<in>set idxs. i < length axes \<and> i < length clusters \<and> i < length points
             \<and> (\<forall>c\<in>set (clusters ! i). size_t_of_int (ID c) < length hits)"
  shows "\<exists>prods'. pfParticleLoop cfg evt idxs prods = Inr prods'"
  using assms(5)
proof (induction idxs arbitrary: prods)
  case Nil
  show ?case by simp
next
  case (Cons i idxs)
  then obtain p1 where p1: "tagPFParticle cfg evt i prods = Inr p1"
    using tagPFParticle_total [OF assms(1) _ assms(2-4), of i cfg prods] by auto
  from Cons.IH [of p1] Cons.prems obtain p2 where "pfParticleLoop cfg evt idxs p1 = Inr p2"
    by auto
  with p1 show ?case by simp
qed

lemma tagPFParticle_Rows:
  assumes "pfPartToPCAxisAssns evt = Rows axes" and "tagPFParticle cfg evt i prods = Inr prods'"
  shows "i < length axes \<and>
     (if axes ! i = [] then prods' = prods
      else \<exists>tag. particleTag cfg evt i (hd (orderAxes (axes ! i))) = Inr tag
         \<and> prods' = \<lparr>cosmicTagPFParticleVector = cosmicTagPFParticleVector prods @ [tag],
                     assnOutCosmicTagPFParticle = assnOutCosmicTagPFParticle prods
                        @ [(i, length (cosmicTagPFParticleVector prods))],
                     assnOutCosmicTagPCAxis = assnOutCosmicTagPCAxis prods
                        @ map (\<lambda>a. (a, length (cosmicTagPFParticleVector prods)))
                            (orderAxes (axes ! i))\<rparr>)"
proof -
  from tagPFParticle_Inr [OF assms(2)] obtain row where
    row: "FindManyP_at (pfPartToPCAxisAssns evt) i = Inr row"
    and rest: "if row = [] then prods' = prods
      else \<exists>tag. particleTag cfg evt i (hd (orderAxes row)) = Inr tag
         \<and> prods' = \<lparr>cosmicTagPFParticleVector = cosmicTagPFParticleVector prods @ [tag],
                     assnOutCosmicTagPFParticle = assnOutCosmicTagPFParticle prods
                        @ [(i, length (cosmicTagPFParticleVector prods))],
                     assnOutCosmicTagPCAxis = assnOutCosmicTagPCAxis prods
                        @ map (\<lambda>a. (a, length (cosmicTagPFParticleVector prods)))
                            (orderAxes row)\<rparr>"
    by blast
  from row assms(1) have i: "i < length axes" and r: "row = axes ! i"
    by (simp_all split: if_splits)
  from rest i show ?thesis unfolding r by simp
qed

text \<open>What the loop appends, for the particles with an axis, in their order.\<close>

lemma pfParticleLoop_Inr:
  assumes "pfPartToPCAxisAssns evt = Rows axes"
    and "pfParticleLoop cfg evt idxs prods = Inr prods'"
  shows "\<exists>ts. cosmicTagPFParticleVector prods' = cosmicTagPFParticleVector prods @ ts
     \<and> list_all2 (\<lambda>i t. particleTag cfg evt i (hd (orderAxes (axes ! i))) = Inr t)
          (filter (\<lambda>i. axes ! i \<noteq> []) idxs) ts
     \<and> assnOutCosmicTagPFParticle prods' = assnOutCosmicTagPFParticle prods
          @ zip (filter (\<lambda>i. axes ! i \<noteq> []) idxs)
                [length (cosmicTagPFParticleVector prods) ..<
                 length (cosmicTagPFParticleVector prods) + length ts]
     \<and> assnOutCosmicTagPCAxis prods' = assnOutCosmicTagPCAxis prods
          @ concat (map (\<lambda>(i, k). map (\<lambda>a. (a, k)) (orderAxes (axes ! i)))
               (zip (filter (\<lambda>i. axes ! i \<noteq> []) idxs)
                    [length (cosmicTagPFParticleVector prods) ..<
                     length (cosmicTagPFParticleVector prods) + length ts]))"
  using assms(2)
proof (induction idxs arbitrary: prods)
  case Nil
  then show ?case by simp
next
  case (Cons i idxs)
  let ?n = "length (cosmicTagPFParticleVector prods)"
  from Cons.prems obtain p1 where p1: "tagPFParticle cfg evt i prods = Inr p1"
    and rest: "pfParticleLoop cfg evt idxs p1 = Inr prods'"
    by (auto split: sum.splits)
  from Cons.IH [OF rest] obtain ts where
    tags: "cosmicTagPFParticleVector prods' = cosmicTagPFParticleVector p1 @ ts"
    and rel: "list_all2 (\<lambda>i t. particleTag cfg evt i (hd (orderAxes (axes ! i))) = Inr t)
          (filter (\<lambda>i. axes ! i \<noteq> []) idxs) ts"
    and pf: "assnOutCosmicTagPFParticle prods' = assnOutCosmicTagPFParticle p1
          @ zip (filter (\<lambda>i. axes ! i \<noteq> []) idxs)
                [length (cosmicTagPFParticleVector p1) ..<
                 length (cosmicTagPFParticleVector p1) + length ts]"
    and ax: "assnOutCosmicTagPCAxis prods' = assnOutCosmicTagPCAxis p1
          @ concat (map (\<lambda>(i, k). map (\<lambda>a. (a, k)) (orderAxes (axes ! i)))
               (zip (filter (\<lambda>i. axes ! i \<noteq> []) idxs)
                    [length (cosmicTagPFParticleVector p1) ..<
                     length (cosmicTagPFParticleVector p1) + length ts]))"
    by blast
  show ?case
  proof (cases "axes ! i = []")
    case True
    with tagPFParticle_Rows [OF assms(1) p1] have same: "p1 = prods" by simp
    from True have f: "filter (\<lambda>i. axes ! i \<noteq> []) (i # idxs)
                         = filter (\<lambda>i. axes ! i \<noteq> []) idxs"
      by simp
    show ?thesis
      unfolding f using tags rel pf ax unfolding same by blast
  next
    case False
    with tagPFParticle_Rows [OF assms(1) p1] obtain tag where
      tag: "particleTag cfg evt i (hd (orderAxes (axes ! i))) = Inr tag"
      and p1eq: "p1 = \<lparr>cosmicTagPFParticleVector = cosmicTagPFParticleVector prods @ [tag],
                     assnOutCosmicTagPFParticle = assnOutCosmicTagPFParticle prods @ [(i, ?n)],
                     assnOutCosmicTagPCAxis = assnOutCosmicTagPCAxis prods
                        @ map (\<lambda>a. (a, ?n)) (orderAxes (axes ! i))\<rparr>"
      by auto
    have "?n < ?n + length (tag # ts)" by simp
    from upt_conv_Cons [OF this]
    have upt: "[?n ..< ?n + length (tag # ts)] = ?n # [Suc ?n ..< Suc ?n + length ts]"
      by simp
    have "cosmicTagPFParticleVector prods' = cosmicTagPFParticleVector prods @ (tag # ts)"
      using tags p1eq by simp
    moreover have "list_all2 (\<lambda>i t. particleTag cfg evt i (hd (orderAxes (axes ! i))) = Inr t)
          (filter (\<lambda>i. axes ! i \<noteq> []) (i # idxs)) (tag # ts)"
      using False tag rel by simp
    moreover have "assnOutCosmicTagPFParticle prods' = assnOutCosmicTagPFParticle prods
          @ zip (filter (\<lambda>i. axes ! i \<noteq> []) (i # idxs))
                [?n ..< ?n + length (tag # ts)]"
      unfolding upt using False pf p1eq by simp
    moreover have "assnOutCosmicTagPCAxis prods' = assnOutCosmicTagPCAxis prods
          @ concat (map (\<lambda>(i, k). map (\<lambda>a. (a, k)) (orderAxes (axes ! i)))
               (zip (filter (\<lambda>i. axes ! i \<noteq> []) (i # idxs))
                    [?n ..< ?n + length (tag # ts)]))"
      unfolding upt using False ax p1eq by simp
    ultimately show ?thesis by blast
  qed
qed

lemma produce_valid:
  "pfParticleHandle evt = Some pfs \<Longrightarrow> pcaxisHandle evt \<noteq> None \<Longrightarrow> clusterHandle evt \<noteq> None
   \<Longrightarrow> produce cfg evt = pfParticleLoop cfg evt [0 ..< length pfs] emptyProducts"
  by (auto simp: produce_def)

lemma orderAxes_cases: "orderAxes axes = axes \<or> orderAxes axes = rev axes"
  by (simp add: orderAxes_def)

lemma pfParticleLoop_no_axes:
  "\<forall>i\<in>set idxs. FindManyP_at (pfPartToPCAxisAssns evt) i = Inr []
   \<Longrightarrow> pfParticleLoop cfg evt idxs prods = Inr prods"
  by (induction idxs) (simp_all add: tagPFParticle_skip)

lemma pfParticleLoop_count:
  assumes "pfPartToPCAxisAssns evt = Rows axes"
    and "pfParticleLoop cfg evt idxs prods = Inr prods'"
  shows "length (cosmicTagPFParticleVector prods')
           = length (cosmicTagPFParticleVector prods)
             + length (filter (\<lambda>i. axes ! i \<noteq> []) idxs)"
proof -
  from pfParticleLoop_Inr [OF assms] obtain ts where
    "cosmicTagPFParticleVector prods' = cosmicTagPFParticleVector prods @ ts"
    and "list_all2 (\<lambda>i t. particleTag cfg evt i (hd (orderAxes (axes ! i))) = Inr t)
          (filter (\<lambda>i. axes ! i \<noteq> []) idxs) ts"
    by blast
  then show ?thesis by (simp add: list_all2_lengthD)
qed

section \<open>Evaluation of the examples\<close>

lemmas geometry_defs =
  tagOf_def checkTPC_def makeTag_def axisExtent_def eigenVal0_def maxArcLen_def transRMS_def
  extentStep_def arcLenToHit_def Dot_def TVector3_minus_def TVector3_plus_def TVector3_scale_def
  toTVector3_def vertexPosition_def vertexDirection_def
  checkBoundaries_def nearX_def nearY_def nearZ_def cosmicScore_def Let_def

lemma size_t_small: "size_t_of_int 0 = 0" "size_t_of_int 1 = 1"
  by (simp_all add: size_t_of_int_def)

lemma size_t_2: "size_t_of_int 2 = 2"
  by (simp add: size_t_of_int_def)

lemma XYZ_pointAt: "XYZ (pointAt x y z) = (x, y, z)"
  by (simp add: pointAt_def)

lemma points_distinct: "pointAt x y z = pointAt x' y' z' \<longleftrightarrow> x = x' \<and> y = y' \<and> z = z'"
  by (simp add: pointAt_def)

lemmas near_cfg0 = nearX_def nearY_def nearZ_def cfg0_def toTVector3_def

lemma hits_cfg0:
  "\<not> outOfTime cfg0 hitInTime" "outOfTime cfg0 hitEarly" "outOfTime cfg0 hitLate"
  by (simp_all add: outOfTime_def cfg0_def hitInTime_def hitEarly_def hitLate_def)

lemma tag_0: "particleTag cfg0 evtA 0 axis3 = Inr tagA0"
  by (simp add: particleTag_def evtA_def size_t_small dumpMe_def outOfTime_def
        hitInTime_def cfg0_def initialState_def geometry_defs axis3_def pointAt_def tagA0_def)

lemma tag_2: "particleTag cfg0 evtA 2 axis3 = Inr tagA2"
  by (simp add: particleTag_def evtA_def size_t_small dumpMe_def outOfTime_def
        hitInTime_def hitEarly_def cfg0_def initialState_def geometry_defs axis3_def tagA2_def)

lemma axes_A: "pfPartToPCAxisAssns evtA = Rows [ [axis5, axis3], [], [axis3]]"
  by (simp add: evtA_def)

lemma order_A: "orderAxes [axis5, axis3] = [axis3, axis5]" "orderAxes [axis3] = [axis3]"
  by (simp_all add: orderAxes_def axis3_def axis5_def)

lemma upt3: "[0 ..< length [\<lparr>Self = 0\<rparr>, \<lparr>Self = 1\<rparr>, \<lparr>Self = 2::nat\<rparr>]] = [0, 1, 2]"
  by (simp add: upt_rec)

lemma produce_evtA: "produce cfg0 evtA = Inr prodsA"
proof -
  have hs: "pfParticleHandle evtA = Some [\<lparr>Self = 0\<rparr>, \<lparr>Self = 1\<rparr>, \<lparr>Self = 2\<rparr>]"
    "pcaxisHandle evtA \<noteq> None" "clusterHandle evtA \<noteq> None"
    by (simp_all add: evtA_def)
  have t2: "particleTag cfg0 evtA (Suc (Suc 0)) axis3 = Inr tagA2"
    using tag_2 by (simp add: numeral_2_eq_2)
  show ?thesis
    by (simp add: produce_def hs upt3 t2 tagPFParticle_def axes_A order_A
          tag_0 tag_2 emptyProducts_def CreateAssn_def prodsA_def Let_def)
qed

lemma tagPFParticle_evtA_0:
  "tagPFParticle cfg0 evtA 0 emptyProducts =
     Inr \<lparr>cosmicTagPFParticleVector = [tagA0], assnOutCosmicTagPFParticle = [(0, 0)],
          assnOutCosmicTagPCAxis = [(axis3, 0), (axis5, 0)]\<rparr>"
  by (simp add: tagPFParticle_def axes_A order_A tag_0 emptyProducts_def
        CreateAssn_def Let_def)

text \<open>The event whose association of space points is absent.\<close>

lemma produce_evtThrows: "produce cfg0 evtThrows = Inl art_Exception"
proof -
  have hs: "pfParticleHandle evtThrows = Some [\<lparr>Self = 0\<rparr>, \<lparr>Self = 1\<rparr>, \<lparr>Self = 2\<rparr>]"
    "pcaxisHandle evtThrows \<noteq> None" "clusterHandle evtThrows \<noteq> None"
    "pfPartToPCAxisAssns evtThrows = Rows [ [axis5, axis3], [], [axis3]]"
    by (simp_all add: evtThrows_def evtA_def)
  have t0: "particleTag cfg0 evtThrows 0 axis3 = Inl art_Exception"
    by (simp add: particleTag_def evtThrows_def evtA_def size_t_small dumpMe_def hits_cfg0
          atThrows_def)
  show ?thesis
    by (simp add: produce_def hs upt3 t0 tagPFParticle_def order_A Let_def)
qed

lemma produce_evtEmptyRow: "produce cfg0 evtEmptyRow = Inr prodsN"
proof -
  have hs: "pfParticleHandle evtEmptyRow = Some [\<lparr>Self = 0\<rparr>, \<lparr>Self = 1\<rparr>, \<lparr>Self = 2\<rparr>]"
    "pcaxisHandle evtEmptyRow \<noteq> None" "clusterHandle evtEmptyRow \<noteq> None"
    "pfPartToPCAxisAssns evtEmptyRow = Rows [ [axis5, axis3], [], [axis3]]"
    by (simp_all add: evtEmptyRow_def evtA_def)
  have t0: "particleTag cfg0 evtEmptyRow 0 axis3 = Inr tagN0"
    by (simp add: particleTag_def evtEmptyRow_def evtA_def size_t_small dumpMe_def hits_cfg0
          atEmptyRow_def initialState_def geometry_defs axis3_def tagN0_def)
  have t2: "particleTag cfg0 evtEmptyRow (Suc (Suc 0)) axis3 = Inr tagA2"
    by (simp add: particleTag_def evtEmptyRow_def evtA_def size_t_small dumpMe_def hits_cfg0
          atEmptyRow_def initialState_def geometry_defs axis3_def tagA2_def)
  show ?thesis
    by (simp add: produce_def hs upt3 t0 t2 tagPFParticle_def order_A
          emptyProducts_def CreateAssn_def prodsN_def Let_def)
qed

text \<open>The example axes.\<close>

lemma sigma_axis3: "meanMinus3Sigma axis3 = [122, 0, 500]" "meanPlus3Sigma axis3 = [134, 0, 500]"
  by (simp_all add: meanMinus3Sigma_def meanPlus3Sigma_def axis3_def)

lemma arc_axis3: "arcLength axis3 (pointAt x y z) = x - 128"
  by (simp add: arcLength_def axis3_def pointAt_def)

lemma axis3_ok:
  "0 < elem0 (getEigenValues axis3)" "d_less (Fin 0) (transRMS axis3)"
  "d_less (Fin 0) (eigenVal0 axis3)"
  by (simp_all add: axis3_def transRMS_def eigenVal0_def)

lemma extent_axis3_xz:
  "findExtent axis3 [pointAt 128 0 2, pointAt 1 0 500] (axisExtent axis3)
     = \<lparr>arcLengthToFirstHit = Fin (- 127), arcLengthToLastHit = Fin 0,
        pcAxisStart = toTVector3 (1, 0, 500), pcAxisEnd = toTVector3 (128, 0, 2)\<rparr>"
  by (simp add: extentStep_def arcLenToHit_Fin arc_axis3 Let_def axisExtent_def XYZ_pointAt)

lemma extent_axis3_zx:
  "findExtent axis3 [pointAt 128 0 2, pointAt 254 0 500] (axisExtent axis3)
     = \<lparr>arcLengthToFirstHit = Fin 0, arcLengthToLastHit = Fin 126,
        pcAxisStart = toTVector3 (128, 0, 2), pcAxisEnd = toTVector3 (254, 0, 500)\<rparr>"
  by (simp add: extentStep_def arcLenToHit_Fin arc_axis3 Let_def axisExtent_def XYZ_pointAt)

lemma sigma_axisWide:
  "meanMinus3Sigma axisWide = [- 1, 0, 500]" "meanPlus3Sigma axisWide = [257, 0, 500]"
  by (simp_all add: meanMinus3Sigma_def meanPlus3Sigma_def axisWide_def)

lemma arc_axisWide: "arcLength axisWide (pointAt x y z) = x - 128"
  by (simp add: arcLength_def axisWide_def pointAt_def)

lemma axisWide_ok:
  "d_less (Fin 0) (eigenVal0 axisWide)" "d_less (Fin 0) (transRMS axisWide)"
  "0 \<le> elem0 (getEigenValues axisWide)"
  by (simp_all add: axisWide_def transRMS_def eigenVal0_def)

lemma extent_axisWide:
  "findExtent axisWide [pointAt 1 0 500, pointAt 255 0 500] (axisExtent axisWide)
     = (axisExtent axisWide)\<lparr>arcLengthToFirstHit := Fin (- 127), arcLengthToLastHit := Fin 127,
        pcAxisStart := toTVector3 (1, 0, 500), pcAxisEnd := toTVector3 (255, 0, 500)\<rparr>"
  by (simp add: extentStep_def arcLenToHit_Fin arc_axisWide Let_def axisExtent_bounds
        XYZ_pointAt)

lemma tag_axisWide_in_time:
  "fCosmicType (tagOf cfg0 axisWide [pointAt 1 0 500, pointAt 255 0 500] initialState)
     = kGeometry_XX"
proof -
  have "isCosmic initialState = 0" by (simp add: initialState_def)
  from checkTPC_run [OF this _ axisWide_ok(1,2), of "[pointAt 1 0 500, pointAt 255 0 500]" cfg0]
  have "checkTPC cfg0 axisWide [pointAt 1 0 500, pointAt 255 0 500] initialState
          = (checkBoundaries cfg0 (toTVector3 (1, 0, 500)) (toTVector3 (255, 0, 500))
               initialState,
             toTVector3 (1, 0, 500), toTVector3 (255, 0, 500))"
    unfolding extent_axisWide by simp
  then show ?thesis
    by (simp add: tagOf_endPts checkBoundaries_def near_cfg0 initialState_def)
qed

lemma axisNegative_eigen: "elem0 (getEigenValues axisNegative) = - 4"
  by (simp add: axisNegative_def)

lemma sigma_axisZero:
  "meanMinus3Sigma axisZero = [128, 0, 500]" "meanPlus3Sigma axisZero = [128, 0, 500]"
  "elem0 (getEigenValues axisZero) = 0" "\<not> d_less (Fin 0) (transRMS axisZero)"
  by (simp_all add: meanMinus3Sigma_def meanPlus3Sigma_def axisZero_def transRMS_def)

lemma sigma_axisThin:
  "meanMinus3Sigma axisThin = [122, 0, 500]" "meanPlus3Sigma axisThin = [134, 0, 500]"
  "elem0 (getEigenValues axisThin) = 4" "\<not> d_less (Fin 0) (transRMS axisThin)"
  by (simp_all add: meanMinus3Sigma_def meanPlus3Sigma_def axisThin_def transRMS_def)

section \<open>Events that yield no tag, and events that must yield one\<close>

lemma produce_not_empty:
  assumes "pfParticleHandle evt = Some pfs" and "pcaxisHandle evt \<noteq> None"
    and "clusterHandle evt \<noteq> None" and "pfPartToPCAxisAssns evt = Rows axes"
    and "i < length pfs" and "axes ! i \<noteq> []"
  shows "produce cfg evt \<noteq> Inr emptyProducts"
proof
  assume "produce cfg evt = Inr emptyProducts"
  then have loop: "pfParticleLoop cfg evt [0 ..< length pfs] emptyProducts = Inr emptyProducts"
    by (simp add: produce_valid [OF assms(1-3)])
  from assms(5,6) have "i \<in> set (filter (\<lambda>i. axes ! i \<noteq> []) [0 ..< length pfs])" by simp
  then have "0 < length (filter (\<lambda>i. axes ! i \<noteq> []) [0 ..< length pfs])"
    by (rule length_pos_if_in_set)
  with pfParticleLoop_count [OF assms(4) loop] show False
    by (simp add: emptyProducts_def)
qed

lemma produce_axes_unreadable:
  assumes "pfParticleHandle evt = Some pfs" and "pfs \<noteq> []" and "pcaxisHandle evt \<noteq> None"
    and "clusterHandle evt \<noteq> None" and "pfPartToPCAxisAssns evt = Unreadable atAxes"
    and "atAxes 0 = Inl e"
  shows "produce cfg evt = Inl e"
proof -
  from assms(2) have "[0 ..< length pfs] = 0 # [1 ..< length pfs]"
    by (simp add: upt_conv_Cons)
  moreover have "tagPFParticle cfg evt 0 emptyProducts = Inl e"
    by (simp add: tagPFParticle_def assms(5,6))
  ultimately show ?thesis
    by (simp add: produce_valid [OF assms(1,3,4)])
qed

lemma produce_no_particles:
  "pfParticleHandle evt = None \<or> pcaxisHandle evt = None \<or> clusterHandle evt = None
     \<or> pfParticleHandle evt = Some []
   \<Longrightarrow> produce cfg evt = Inr emptyProducts"
  by (auto simp: produce_def split: option.splits)

lemma produce_no_axes:
  assumes "pfParticleHandle evt = Some pfs" and "pfPartToPCAxisAssns evt = Rows axes"
    and "length axes = length pfs" and "\<forall>row\<in>set axes. row = []"
  shows "produce cfg evt = Inr emptyProducts"
proof -
  have "\<forall>i\<in>set [0 ..< length pfs]. FindManyP_at (pfPartToPCAxisAssns evt) i = Inr []"
    using assms(2-4) by simp
  from pfParticleLoop_no_axes [OF this] assms(1) show ?thesis
    by (simp add: produce_def)
qed

section \<open>More on the examples\<close>

lemma axis3_eigen: "elem0 (getEigenValues axis3) = 4"
  by (simp add: axis3_def)

section \<open>The claims\<close>

subsection \<open>Hits out of time and the boundary section\<close>

text \<open>
  C1, as stated, fails. The hit \<^const>\<open>hitEarly\<close> is out of time, so the scan leaves level 1.
  Rule 1 of the boundary section holds at the extreme space points (1, 0, 500) and
  (255, 0, 500) of the particle, and also at the end points (-1, 0, 500) and (257, 0, 500)
  taken from the axis, and would give Geometry_XX. The tag is OutsideDrift_Partial all the
  same; the same particle with its hits in time is tagged Geometry_XX.
\<close>

theorem boundary_rules_override_counterexample:
  "outOfTime cfg0 hitEarly
   \<and> scanClusters cfg0 dumpMe (Rows [ [hitInTime, hitEarly]]) [\<lparr>ID = 0\<rparr>] (initialState, [])
       = Inr (flagged, [])
   \<and> isCosmic flagged = 1
   \<and> checkBoundaries cfg0 (toTVector3 (1, 0, 500)) (toTVector3 (255, 0, 500)) flagged
       = \<lparr>isCosmic = 2, tag_id = kGeometry_XX\<rparr>
   \<and> checkBoundaries cfg0 (toTVector3 (- 1, 0, 500)) (toTVector3 (257, 0, 500)) flagged
       = \<lparr>isCosmic = 2, tag_id = kGeometry_XX\<rparr>
   \<and> tagOf cfg0 axisWide [pointAt 1 0 500, pointAt 255 0 500] flagged
       = \<lparr>endPt1 = [Fin (- 1), Fin 0, Fin 500], endPt2 = [Fin 257, Fin 0, Fin 500],
          fCosmicScore = 1, fCosmicType = kOutsideDrift_Partial\<rparr>
   \<and> fCosmicType (tagOf cfg0 axisWide [pointAt 1 0 500, pointAt 255 0 500] initialState)
       = kGeometry_XX"
proof (intro conjI)
  show "outOfTime cfg0 hitEarly" by (rule hits_cfg0)
  show "scanClusters cfg0 dumpMe (Rows [ [hitInTime, hitEarly]]) [\<lparr>ID = 0\<rparr>] (initialState, [])
       = Inr (flagged, [])"
    by (simp add: size_t_small hits_cfg0 dumpMe_def initialState_def flagged_def)
  show "isCosmic flagged = 1" by (simp add: flagged_def)
  show "checkBoundaries cfg0 (toTVector3 (1, 0, 500)) (toTVector3 (255, 0, 500)) flagged
       = \<lparr>isCosmic = 2, tag_id = kGeometry_XX\<rparr>"
    by (simp add: checkBoundaries_def near_cfg0 flagged_def)
  show "checkBoundaries cfg0 (toTVector3 (- 1, 0, 500)) (toTVector3 (257, 0, 500)) flagged
       = \<lparr>isCosmic = 2, tag_id = kGeometry_XX\<rparr>"
    by (simp add: checkBoundaries_def near_cfg0 flagged_def)
  show "tagOf cfg0 axisWide [pointAt 1 0 500, pointAt 255 0 500] flagged
       = \<lparr>endPt1 = [Fin (- 1), Fin 0, Fin 500], endPt2 = [Fin 257, Fin 0, Fin 500],
          fCosmicScore = 1, fCosmicType = kOutsideDrift_Partial\<rparr>"
  proof -
    have "isCosmic flagged \<noteq> 0 \<or> [pointAt 1 0 500, pointAt 255 0 500] = []
            \<or> \<not> d_less (Fin 0) (eigenVal0 axisWide) \<or> \<not> d_less (Fin 0) (transRMS axisWide)"
      by (simp add: flagged_def)
    from tagOf_skipped_Fin [OF this axisWide_ok(3)] show ?thesis
      by (simp add: sigma_axisWide flagged_def cosmicScore_def)
  qed
  show "fCosmicType (tagOf cfg0 axisWide [pointAt 1 0 500, pointAt 255 0 500] initialState)
       = kGeometry_XX"
    by (rule tag_axisWide_in_time)
qed

text \<open>
  C1, amended. When some hit of the particle is out of time, the scan leaves level 1, the
  boundary section does not run (it is entered at level 0 only) and leaves the state as it
  is: the tag has kind OutsideDrift_Partial and score 1, whatever the space points are, and
  its end points are those taken from the axis (the mean minus, and plus, three times the
  square root of the dominant eigenvalue along the principal direction; NaN in every
  coordinate when the dominant eigenvalue is negative).
\<close>

theorem out_of_time_tag:
  assumes "scanClusters cfg dump (Rows hitAssns) clusterVec (initialState, out) = Inr (st, out')"
    and "\<exists>c\<in>set clusterVec. \<exists>h\<in>set (hitAssns ! size_t_of_int (ID c)). outOfTime cfg h"
  shows "isCosmic st = 1
     \<and> fst (checkTPC cfg pcAxis spacePointVec st) = st
     \<and> fCosmicScore (tagOf cfg pcAxis spacePointVec st) = 1
     \<and> fCosmicType (tagOf cfg pcAxis spacePointVec st) = kOutsideDrift_Partial
     \<and> (0 \<le> elem0 (getEigenValues pcAxis) \<longrightarrow>
          endPt1 (tagOf cfg pcAxis spacePointVec st) = map Fin (meanMinus3Sigma pcAxis)
          \<and> endPt2 (tagOf cfg pcAxis spacePointVec st) = map Fin (meanPlus3Sigma pcAxis))
     \<and> (elem0 (getEigenValues pcAxis) < 0 \<longrightarrow>
          endPt1 (tagOf cfg pcAxis spacePointVec st) = [NaN, NaN, NaN]
          \<and> endPt2 (tagOf cfg pcAxis spacePointVec st) = [NaN, NaN, NaN])"
proof -
  from scanClusters_state [OF assms(1)] assms(2)
  have st: "st = \<lparr>isCosmic = 1, tag_id = kOutsideDrift_Partial\<rparr>"
    by (simp add: initialState_def)
  then have skip: "isCosmic st \<noteq> 0 \<or> spacePointVec = [] \<or> \<not> d_less (Fin 0) (eigenVal0 pcAxis)
      \<or> \<not> d_less (Fin 0) (transRMS pcAxis)"
    by simp
  have level: "isCosmic st = 1" and score: "cosmicScore (isCosmic st) = 1"
    and kind: "tag_id st = kOutsideDrift_Partial"
    by (simp_all add: st cosmicScore_def)
  note tag = tagOf_skipped [OF skip, of cfg]
  have "fst (checkTPC cfg pcAxis spacePointVec st) = st"
    by (simp add: checkTPC_skipped [OF skip])
  moreover have "fCosmicScore (tagOf cfg pcAxis spacePointVec st) = 1"
    and "fCosmicType (tagOf cfg pcAxis spacePointVec st) = kOutsideDrift_Partial"
    unfolding tag by (simp_all add: score kind)
  moreover have "0 \<le> elem0 (getEigenValues pcAxis) \<longrightarrow>
          endPt1 (tagOf cfg pcAxis spacePointVec st) = map Fin (meanMinus3Sigma pcAxis)
          \<and> endPt2 (tagOf cfg pcAxis spacePointVec st) = map Fin (meanPlus3Sigma pcAxis)"
    by (simp add: tagOf_skipped_Fin [OF skip])
  moreover have "elem0 (getEigenValues pcAxis) < 0 \<longrightarrow>
          endPt1 (tagOf cfg pcAxis spacePointVec st) = [NaN, NaN, NaN]
          \<and> endPt2 (tagOf cfg pcAxis spacePointVec st) = [NaN, NaN, NaN]"
    by (simp add: tagOf_NaN)
  ultimately show ?thesis using level by blast
qed

theorem out_of_time_tag_witness:
  "scanClusters cfg0 dumpMe (Rows [ [hitInTime, hitEarly]]) [\<lparr>ID = 0\<rparr>] (initialState, [])
       = Inr (flagged, [])
   \<and> (\<exists>c\<in>set [\<lparr>ID = 0\<rparr>]. \<exists>h\<in>set ([ [hitInTime, hitEarly]] ! size_t_of_int (ID c)).
          outOfTime cfg0 h)
   \<and> tagOf cfg0 axisWide [pointAt 1 0 500, pointAt 255 0 500] flagged
       = \<lparr>endPt1 = [Fin (- 1), Fin 0, Fin 500], endPt2 = [Fin 257, Fin 0, Fin 500],
          fCosmicScore = 1, fCosmicType = kOutsideDrift_Partial\<rparr>
   \<and> elem0 (getEigenValues axisNegative) < 0
   \<and> tagOf cfg0 axisNegative [pointAt 1 0 500, pointAt 255 0 500] flagged
       = \<lparr>endPt1 = [NaN, NaN, NaN], endPt2 = [NaN, NaN, NaN],
          fCosmicScore = 1, fCosmicType = kOutsideDrift_Partial\<rparr>"
proof -
  have scan: "scanClusters cfg0 dumpMe (Rows [ [hitInTime, hitEarly]]) [\<lparr>ID = 0\<rparr>]
       (initialState, []) = Inr (flagged, [])"
    by (simp add: size_t_small hits_cfg0 dumpMe_def initialState_def flagged_def)
  have late: "\<exists>c\<in>set [\<lparr>ID = 0\<rparr>]. \<exists>h\<in>set ([ [hitInTime, hitEarly]] ! size_t_of_int (ID c)).
          outOfTime cfg0 h"
    by (simp add: size_t_small hits_cfg0)
  from out_of_time_tag [OF scan late, of axisWide "[pointAt 1 0 500, pointAt 255 0 500]"]
    out_of_time_tag [OF scan late, of axisNegative "[pointAt 1 0 500, pointAt 255 0 500]"]
  show ?thesis
    using scan late
    by (simp add: sigma_axisWide axisWide_ok axisNegative_eigen CosmicTag.equality)
qed

subsection \<open>The extreme space points\<close>

text \<open>
  C2, as stated, fails. The particle has level 0, a positive dominant eigenvalue and a
  positive transverse spread, and one space point, at (10200, 0, 500), whose arc length
  along the axis is 10072; it is the point of least arc length. The first end point of the
  tag is not this point: it is (122, 0, 500), the point taken from the axis, because 10072
  is not below the bound 9999 the search starts from.
\<close>

theorem extremal_start_counterexample:
  "isCosmic initialState = 0 \<and> 0 < elem0 (getEigenValues axis3)
   \<and> d_less (Fin 0) (transRMS axis3)
   \<and> firstMinimal (arcLength axis3) [pointAt 10200 0 500] = pointAt 10200 0 500
   \<and> arcLenToHit axis3 (pointAt 10200 0 500) = Fin 10072
   \<and> coordinates (pointAt 10200 0 500) = [Fin 10200, Fin 0, Fin 500]
   \<and> endPt1 (tagOf cfg0 axis3 [pointAt 10200 0 500] initialState) = [Fin 122, Fin 0, Fin 500]
   \<and> endPt1 (tagOf cfg0 axis3 [pointAt 10200 0 500] initialState)
       \<noteq> coordinates (firstMinimal (arcLength axis3) [pointAt 10200 0 500])"
proof -
  have lv: "isCosmic initialState = 0" by (simp add: initialState_def)
  have fm: "firstMinimal (arcLength axis3) [pointAt 10200 0 500] = pointAt 10200 0 500"
    by (simp add: firstMinimal_def)
  have co: "coordinates (pointAt 10200 0 500) = [Fin 10200, Fin 0, Fin 500]"
    by (simp add: coordinates_def XYZ_pointAt)
  have "pcAxisStart (findExtent axis3 [pointAt 10200 0 500] (axisExtent axis3))
          = pcAxisStart (axisExtent axis3)"
    by (rule findExtent_start_kept [OF axisExtent_bounds(1)]) (simp add: arc_axis3)
  with checkTPC_run [OF lv _ axis3_ok(3,2), of "[pointAt 10200 0 500]" cfg0]
    axisExtent_lists(1) [of axis3] axis3_ok(1)
  have e1: "endPt1 (tagOf cfg0 axis3 [pointAt 10200 0 500] initialState)
              = [Fin 122, Fin 0, Fin 500]"
    by (simp add: tagOf_endPts sigma_axis3)
  show ?thesis
    unfolding e1 fm co using lv axis3_ok by (simp add: arcLenToHit_Fin arc_axis3)
qed

text \<open>
  C2, amended. For a particle with level 0, a positive dominant eigenvalue, a positive
  transverse spread and at least one space point: if some space point has an arc length
  below 9999, the first end point of the tag is the first space point, in the order given,
  among those of least arc length; if some space point has an arc length above -9999, the
  second end point is the first space point among those of greatest arc length. (The first
  of least arc length: every point before it has a strictly greater arc length, every point
  after it one at least as great; and likewise for the greatest.) When the space points
  have pairwise different arc lengths, the tag does not depend on their order. The arc
  length the code computes for a space point is the real number \<^const>\<open>arcLength\<close>.
\<close>

theorem extremal_space_points:
  assumes "isCosmic st = 0" and "0 < elem0 (getEigenValues pcAxis)"
    and "d_less (Fin 0) (transRMS pcAxis)" and "sp \<noteq> []"
  shows "((\<exists>p\<in>set sp. arcLength pcAxis p < 9999) \<longrightarrow>
            endPt1 (tagOf cfg pcAxis sp st)
              = coordinates (firstMinimal (arcLength pcAxis) sp))
       \<and> ((\<exists>p\<in>set sp. - 9999 < arcLength pcAxis p) \<longrightarrow>
            endPt2 (tagOf cfg pcAxis sp st)
              = coordinates (firstMaximal (arcLength pcAxis) sp))
       \<and> (\<exists>ys zs. sp = ys @ firstMinimal (arcLength pcAxis) sp # zs
             \<and> (\<forall>y\<in>set ys. arcLength pcAxis (firstMinimal (arcLength pcAxis) sp)
                                < arcLength pcAxis y)
             \<and> (\<forall>z\<in>set zs. arcLength pcAxis (firstMinimal (arcLength pcAxis) sp)
                                \<le> arcLength pcAxis z))
       \<and> (\<exists>ys zs. sp = ys @ firstMaximal (arcLength pcAxis) sp # zs
             \<and> (\<forall>y\<in>set ys. arcLength pcAxis y
                                < arcLength pcAxis (firstMaximal (arcLength pcAxis) sp))
             \<and> (\<forall>z\<in>set zs. arcLength pcAxis z
                                \<le> arcLength pcAxis (firstMaximal (arcLength pcAxis) sp)))
       \<and> (set sp' = set sp \<and> inj_on (arcLength pcAxis) (set sp) \<longrightarrow>
            tagOf cfg pcAxis sp' st = tagOf cfg pcAxis sp st)
       \<and> (\<forall>p. arcLenToHit pcAxis p = Fin (arcLength pcAxis p))"
proof (intro conjI impI allI)
  from assms(2) have e0: "d_less (Fin 0) (eigenVal0 pcAxis)" by (simp add: eigenVal0_positive)
  note run = checkTPC_run [OF assms(1,4) e0 assms(3), of cfg]
  {
    assume "\<exists>p\<in>set sp. arcLength pcAxis p < 9999"
    then have "pcAxisStart (findExtent pcAxis sp (axisExtent pcAxis))
                 = toTVector3 (XYZ (firstMinimal (arcLength pcAxis) sp))"
      by (simp add: findExtent_start [OF axisExtent_bounds(1)])
    then show "endPt1 (tagOf cfg pcAxis sp st)
                 = coordinates (firstMinimal (arcLength pcAxis) sp)"
      using toTVector3_coordinates [of "firstMinimal (arcLength pcAxis) sp"]
      by (simp add: tagOf_endPts run)
  }
  {
    assume "\<exists>p\<in>set sp. - 9999 < arcLength pcAxis p"
    then have "pcAxisEnd (findExtent pcAxis sp (axisExtent pcAxis))
                 = toTVector3 (XYZ (firstMaximal (arcLength pcAxis) sp))"
      by (simp add: findExtent_end [OF axisExtent_bounds(2)])
    then show "endPt2 (tagOf cfg pcAxis sp st)
                 = coordinates (firstMaximal (arcLength pcAxis) sp)"
      using toTVector3_coordinates [of "firstMaximal (arcLength pcAxis) sp"]
      by (simp add: tagOf_endPts run)
  }
  show "\<exists>ys zs. sp = ys @ firstMinimal (arcLength pcAxis) sp # zs
             \<and> (\<forall>y\<in>set ys. arcLength pcAxis (firstMinimal (arcLength pcAxis) sp)
                                < arcLength pcAxis y)
             \<and> (\<forall>z\<in>set zs. arcLength pcAxis (firstMinimal (arcLength pcAxis) sp)
                                \<le> arcLength pcAxis z)"
    using assms(4) by (rule firstMinimal_split)
  show "\<exists>ys zs. sp = ys @ firstMaximal (arcLength pcAxis) sp # zs
             \<and> (\<forall>y\<in>set ys. arcLength pcAxis y
                                < arcLength pcAxis (firstMaximal (arcLength pcAxis) sp))
             \<and> (\<forall>z\<in>set zs. arcLength pcAxis z
                                \<le> arcLength pcAxis (firstMaximal (arcLength pcAxis) sp))"
    using assms(4) by (rule firstMaximal_split)
  {
    assume "set sp' = set sp \<and> inj_on (arcLength pcAxis) (set sp)"
    then have "set sp' = set sp" and "inj_on (arcLength pcAxis) (set sp)" by simp_all
    then show "tagOf cfg pcAxis sp' st = tagOf cfg pcAxis sp st"
      by (rule tagOf_order)
  }
  show "\<And>p. arcLenToHit pcAxis p = Fin (arcLength pcAxis p)"
    by (rule arcLenToHit_Fin)
qed

theorem extremal_space_points_witness:
  "isCosmic initialState = 0 \<and> 0 < elem0 (getEigenValues axis3)
   \<and> d_less (Fin 0) (transRMS axis3)
   \<and> map (arcLenToHit axis3)
        [pointAt 128 0 500, pointAt 135 0 500, pointAt 118 0 500, pointAt 125 0 500]
       = [Fin 0, Fin 7, Fin (- 10), Fin (- 3)]
   \<and> endPt1 (tagOf cfg0 axis3
        [pointAt 128 0 500, pointAt 135 0 500, pointAt 118 0 500, pointAt 125 0 500] initialState)
       = [Fin 118, Fin 0, Fin 500]
   \<and> endPt2 (tagOf cfg0 axis3
        [pointAt 128 0 500, pointAt 135 0 500, pointAt 118 0 500, pointAt 125 0 500] initialState)
       = [Fin 135, Fin 0, Fin 500]
   \<and> tagOf cfg0 axis3
        [pointAt 118 0 500, pointAt 125 0 500, pointAt 128 0 500, pointAt 135 0 500] initialState
       = tagOf cfg0 axis3
        [pointAt 128 0 500, pointAt 135 0 500, pointAt 118 0 500, pointAt 125 0 500] initialState"
proof -
  let ?sp = "[pointAt 128 0 500, pointAt 135 0 500, pointAt 118 0 500, pointAt 125 0 500]"
  let ?sp' = "[pointAt 118 0 500, pointAt 125 0 500, pointAt 128 0 500, pointAt 135 0 500]"
  have lv: "isCosmic initialState = 0" by (simp add: initialState_def)
  have fmin: "firstMinimal (arcLength axis3) ?sp = pointAt 118 0 500"
    by (simp add: firstMinimal_def arc_axis3)
  have fmax: "firstMaximal (arcLength axis3) ?sp = pointAt 135 0 500"
    by (simp add: firstMaximal_def arc_axis3)
  have sets: "set ?sp' = set ?sp" by auto
  have inj: "inj_on (arcLength axis3) (set ?sp)"
    by (simp add: arc_axis3 points_distinct)
  from extremal_space_points [OF lv axis3_ok(1,2), of ?sp cfg0 ?sp'] sets inj
  show ?thesis
    by (simp add: lv axis3_ok arc_axis3 fmin fmax coordinates_def XYZ_pointAt)
qed

subsection \<open>Space points beyond the starting bounds\<close>

text \<open>
  C3. With level 0, a positive dominant eigenvalue and a positive transverse spread: when
  every space point has an arc length of at least 9999, the first end point of the tag is
  not a space point but stays the mean of the axis minus three times the square root of the
  dominant eigenvalue along the principal direction; when every space point has an arc length
  of at most -9999, the second end point stays the mean plus that vector. The search starts
  its bounds at 9999 and -9999 and only replaces an end point on a strict comparison. The
  arc length the code computes for a space point is the real number \<^const>\<open>arcLength\<close>.
\<close>

theorem sentinel_keeps_fallback:
  assumes "isCosmic st = 0" and "elem0 (getEigenValues pcAxis) > 0"
    and "d_less (Fin 0) (transRMS pcAxis)"
  shows "((\<forall>p\<in>set spacePointVec. 9999 \<le> arcLength pcAxis p) \<longrightarrow>
            endPt1 (tagOf cfg pcAxis spacePointVec st) = map Fin (meanMinus3Sigma pcAxis))
       \<and> ((\<forall>p\<in>set spacePointVec. arcLength pcAxis p \<le> - 9999) \<longrightarrow>
            endPt2 (tagOf cfg pcAxis spacePointVec st) = map Fin (meanPlus3Sigma pcAxis))
       \<and> (\<forall>p. arcLenToHit pcAxis p = Fin (arcLength pcAxis p))"
proof (cases "spacePointVec = []")
  case True
  from assms(2) have nonneg: "0 \<le> elem0 (getEigenValues pcAxis)" by simp
  from True have "isCosmic st \<noteq> 0 \<or> spacePointVec = [] \<or> \<not> d_less (Fin 0) (eigenVal0 pcAxis)
           \<or> \<not> d_less (Fin 0) (transRMS pcAxis)" by simp
  from tagOf_skipped_Fin [OF this nonneg] show ?thesis
    by (simp add: arcLenToHit_Fin)
next
  case False
  from assms(2) have e0: "d_less (Fin 0) (eigenVal0 pcAxis)" by (simp add: eigenVal0_positive)
  from assms(2) have nonneg: "0 \<le> elem0 (getEigenValues pcAxis)" by simp
  note run = checkTPC_run [OF assms(1) False e0 assms(3), of cfg]
  show ?thesis
  proof (intro conjI impI allI)
    assume "\<forall>p\<in>set spacePointVec. 9999 \<le> arcLength pcAxis p"
    then have "pcAxisStart (findExtent pcAxis spacePointVec (axisExtent pcAxis))
                 = pcAxisStart (axisExtent pcAxis)"
      by (rule findExtent_start_kept [OF axisExtent_bounds(1)])
    then show "endPt1 (tagOf cfg pcAxis spacePointVec st) = map Fin (meanMinus3Sigma pcAxis)"
      using axisExtent_lists(1) [OF nonneg] by (simp add: tagOf_endPts run)
  next
    assume "\<forall>p\<in>set spacePointVec. arcLength pcAxis p \<le> - 9999"
    then have "pcAxisEnd (findExtent pcAxis spacePointVec (axisExtent pcAxis))
                 = pcAxisEnd (axisExtent pcAxis)"
      by (rule findExtent_end_kept [OF axisExtent_bounds(2)])
    then show "endPt2 (tagOf cfg pcAxis spacePointVec st) = map Fin (meanPlus3Sigma pcAxis)"
      using axisExtent_lists(2) [OF nonneg] by (simp add: tagOf_endPts run)
  next
    show "\<And>p. arcLenToHit pcAxis p = Fin (arcLength pcAxis p)"
      by (rule arcLenToHit_Fin)
  qed
qed

theorem sentinel_keeps_fallback_witness:
  "isCosmic initialState = 0 \<and> elem0 (getEigenValues axis3) > 0
   \<and> d_less (Fin 0) (transRMS axis3)
   \<and> arcLenToHit axis3 (pointAt 10200 0 500) = Fin 10072
   \<and> arcLenToHit axis3 (pointAt 10300 0 500) = Fin 10172
   \<and> endPt1 (tagOf cfg0 axis3 [pointAt 10200 0 500, pointAt 10300 0 500] initialState)
       = [Fin 122, Fin 0, Fin 500]
   \<and> arcLenToHit axis3 (pointAt (- 10200) 0 500) = Fin (- 10328)
   \<and> endPt2 (tagOf cfg0 axis3 [pointAt (- 10200) 0 500] initialState)
       = [Fin 134, Fin 0, Fin 500]"
  using sentinel_keeps_fallback [of initialState axis3 "[pointAt 10200 0 500, pointAt 10300 0 500]" cfg0]
    sentinel_keeps_fallback [of initialState axis3 "[pointAt (- 10200) 0 500]" cfg0]
  by (simp add: axis3_ok arc_axis3 sigma_axis3 initialState_def)

subsection \<open>The first rule of the boundary section\<close>

text \<open>
  C4. For a particle that reaches the boundary section (level 0, space points present,
  positive dominant eigenvalue and transverse spread), with \<open>s\<close> and \<open>e\<close> the two end points
  found among the space points, which are the end points of the tag: the level becomes 2
  exactly when (exit(s) and exit(e)) or (exit(s) and nearZ(e)) or (exit(s) and nearZ(s)),
  where exit is nearX or nearY; both cross terms test exit(s). When this holds the score is 1
  and the kind is the first match of: both X-near, XX; both Y-near, YY; X-near at either and
  Y-near at either, XY; X-near at either and Z-near at either, XZ; otherwise YZ.
\<close>

theorem rule1_fires:
  assumes "isCosmic st = 0" and "spacePointVec \<noteq> []"
    and "elem0 (getEigenValues pcAxis) > 0" and "d_less (Fin 0) (transRMS pcAxis)"
  shows "let ext = findExtent pcAxis spacePointVec (axisExtent pcAxis);
             s = pcAxisStart ext; e = pcAxisEnd ext;
             xs = nearX cfg (fX s); xe = nearX cfg (fX e);
             ys = nearY cfg (fY s); ye = nearY cfg (fY e);
             zs = nearZ cfg (fZ s); ze = nearZ cfg (fZ e);
             exitS = (xs \<or> ys); exitE = (xe \<or> ye);
             rule1 = ((exitS \<and> exitE) \<or> (exitS \<and> ze) \<or> (exitS \<and> zs));
             tag = tagOf cfg pcAxis spacePointVec st
         in endPt1 tag = [fX s, fY s, fZ s] \<and> endPt2 tag = [fX e, fY e, fZ e]
            \<and> (isCosmic (fst (checkTPC cfg pcAxis spacePointVec st)) = 2 \<longleftrightarrow> rule1)
            \<and> (rule1 \<longrightarrow> fCosmicScore tag = 1
                  \<and> fCosmicType tag =
                      (if xs \<and> xe then kGeometry_XX
                       else if ys \<and> ye then kGeometry_YY
                       else if (xs \<or> xe) \<and> (ys \<or> ye) then kGeometry_XY
                       else if (xs \<or> xe) \<and> (zs \<or> ze) then kGeometry_XZ
                       else kGeometry_YZ))"
proof -
  from assms(3) have e0: "d_less (Fin 0) (eigenVal0 pcAxis)" by (simp add: eigenVal0_positive)
  note run = checkTPC_run [OF assms(1,2) e0 assms(4), of cfg]
  show ?thesis
    unfolding Let_def tagOf_endPts run fst_conv snd_conv
    by (simp add: checkBoundaries_def Let_def cosmicScore_def assms(1))
qed

theorem rule1_fires_witness:
  "isCosmic initialState = 0 \<and> elem0 (getEigenValues axis3) > 0
   \<and> d_less (Fin 0) (transRMS axis3)
   \<and> tagOf cfg0 axis3 [pointAt 128 0 2, pointAt 1 0 500] initialState
       = \<lparr>endPt1 = [Fin 1, Fin 0, Fin 500], endPt2 = [Fin 128, Fin 0, Fin 2],
          fCosmicScore = 1, fCosmicType = kGeometry_XZ\<rparr>
   \<and> isCosmic (fst (checkTPC cfg0 axis3 [pointAt 128 0 2, pointAt 1 0 500] initialState)) = 2
   \<and> endPt1 (tagOf cfg0 axis3 [pointAt 128 0 2, pointAt 254 0 500] initialState)
       = [Fin 128, Fin 0, Fin 2]
   \<and> endPt2 (tagOf cfg0 axis3 [pointAt 128 0 2, pointAt 254 0 500] initialState)
       = [Fin 254, Fin 0, Fin 500]
   \<and> isCosmic (fst (checkTPC cfg0 axis3 [pointAt 128 0 2, pointAt 254 0 500] initialState)) \<noteq> 2"
  using rule1_fires [of initialState "[pointAt 128 0 2, pointAt 1 0 500]" axis3 cfg0]
    rule1_fires [of initialState "[pointAt 128 0 2, pointAt 254 0 500]" axis3 cfg0]
  apply (simp only: extent_axis3_xz extent_axis3_zx Let_def)
  apply (simp add: axis3_ok initialState_def near_cfg0)
  done

subsection \<open>The scan of the hits, cluster by cluster\<close>

text \<open>
  C5. The scan of the clusters of one particle, when every cluster id is a row of the hit
  table. The state after the scan has level 1 and kind OutsideDrift_Partial if some hit of
  some cluster is out of time, and is the state before the scan otherwise. Within a cluster
  the scan reaches the hits up to the first one out of time and none after it; every
  cluster is scanned, whatever the clusters before it did (the second component lists the
  hits reached, cluster by cluster, when \<^verbatim>\<open>dumpMe\<close> is set). A state that is
  already level 1, OutsideDrift_Partial stays so, and the boundary section leaves a state of
  level 1 as it is.
\<close>

theorem timing_scan:
  assumes "\<forall>c\<in>set clusterVec. size_t_of_int (ID c) < length hitAssns"
  shows "\<exists>st' out'.
     scanClusters cfg dump (Rows hitAssns) clusterVec (st, out) = Inr (st', out')
     \<and> st' = (if \<exists>c\<in>set clusterVec. \<exists>h\<in>set (hitAssns ! size_t_of_int (ID c)). outOfTime cfg h
              then st\<lparr>isCosmic := 1, tag_id := kOutsideDrift_Partial\<rparr> else st)
     \<and> out' = (if dump
               then out @ concat (map (\<lambda>c. reachedHits cfg (hitAssns ! size_t_of_int (ID c)))
                                   clusterVec)
               else out)
     \<and> (\<forall>pre hit post. outOfTime cfg hit \<and> (\<forall>h\<in>set pre. \<not> outOfTime cfg h)
            \<longrightarrow> reachedHits cfg (pre @ hit # post) = pre @ [hit])
     \<and> (isCosmic st = 1 \<and> tag_id st = kOutsideDrift_Partial \<longrightarrow> st' = st)
     \<and> (isCosmic st' = 1 \<longrightarrow> fst (checkTPC cfg pcAxis spacePointVec st') = st')"
proof -
  from scanClusters_total [OF assms] obtain s' where
    "scanClusters cfg dump (Rows hitAssns) clusterVec (st, out) = Inr s'" by blast
  then obtain st' out' where
    run: "scanClusters cfg dump (Rows hitAssns) clusterVec (st, out) = Inr (st', out')"
    by (cases s') simp
  note state = scanClusters_state [OF run]
  have sticky: "isCosmic st = 1 \<and> tag_id st = kOutsideDrift_Partial \<longrightarrow> st' = st"
    unfolding state by simp
  have gate: "isCosmic st' = 1 \<longrightarrow> fst (checkTPC cfg pcAxis spacePointVec st') = st'"
    by (simp add: checkTPC_skipped)
  from run state scanClusters_out [OF run] sticky gate show ?thesis
    by (simp add: reachedHits_stop)
qed

theorem timing_scan_witness:
  "size_t_of_int (ID \<lparr>ID = 1\<rparr>) < length [ [hitInTime], [hitInTime, hitEarly, hitInTime], [hitInTime, hitLate]]
   \<and> size_t_of_int (ID \<lparr>ID = 0\<rparr>) < length [ [hitInTime], [hitInTime, hitEarly, hitInTime], [hitInTime, hitLate]]
   \<and> size_t_of_int (ID \<lparr>ID = 2\<rparr>) < length [ [hitInTime], [hitInTime, hitEarly, hitInTime], [hitInTime, hitLate]]
   \<and> scanClusters cfg0 True
       (Rows [ [hitInTime], [hitInTime, hitEarly, hitInTime], [hitInTime, hitLate]])
       [\<lparr>ID = 1\<rparr>, \<lparr>ID = 0\<rparr>, \<lparr>ID = 2\<rparr>] (initialState, [])
     = Inr (\<lparr>isCosmic = 1, tag_id = kOutsideDrift_Partial\<rparr>,
            [hitInTime, hitEarly, hitInTime, hitInTime, hitLate])"
  using timing_scan [of "[\<lparr>ID = 1\<rparr>, \<lparr>ID = 0\<rparr>, \<lparr>ID = 2\<rparr>]"
      "[ [hitInTime], [hitInTime, hitEarly, hitInTime], [hitInTime, hitLate]]"
      cfg0 True initialState "[]" axis3 "[]"]
  by (auto simp: size_t_small size_t_2 hits_cfg0 reachedHits_def initialState_def)

subsection \<open>Events with absent associations\<close>

text \<open>
  C6, as stated, fails. In the event \<^const>\<open>evtThrows\<close> the three handles are valid and the
  association of space points is absent, its accessor throwing: \<^verbatim>\<open>produce\<close> raises the
  exception when it reaches the first particle with an axis. In \<^const>\<open>evtEmptyRow\<close> the
  accessor of the absent association gives an empty row instead: the products are not empty,
  the two particles that have an axis are tagged. In neither case are three empty products
  put without an error.
\<close>

theorem absent_space_points_counterexample:
  "pfParticleHandle evtThrows \<noteq> None \<and> pcaxisHandle evtThrows \<noteq> None
   \<and> clusterHandle evtThrows \<noteq> None
   \<and> spacePointAssnVec evtThrows = Unreadable atThrows
   \<and> produce cfg0 evtThrows = Inl art_Exception
   \<and> produce cfg0 evtThrows \<noteq> Inr emptyProducts
   \<and> pfParticleHandle evtEmptyRow \<noteq> None \<and> pcaxisHandle evtEmptyRow \<noteq> None
   \<and> clusterHandle evtEmptyRow \<noteq> None
   \<and> spacePointAssnVec evtEmptyRow = Unreadable atEmptyRow
   \<and> produce cfg0 evtEmptyRow = Inr prodsN
   \<and> cosmicTagPFParticleVector prodsN = [tagN0, tagA2]
   \<and> produce cfg0 evtEmptyRow \<noteq> Inr emptyProducts"
  unfolding produce_evtThrows produce_evtEmptyRow
  by (simp add: evtThrows_def evtEmptyRow_def evtA_def prodsN_def emptyProducts_def)

text \<open>
  C6, amended. For an event whose association of axes or of space points is absent or
  invalid: \<^verbatim>\<open>produce\<close> puts three empty products and raises nothing when the handle of the
  particles, of the axes or of the clusters is not valid or the event holds no particle, and
  when the association of axes was read and no particle has an axis. Nothing tests the
  associations themselves: when the three handles are valid, the association of axes was
  read and some particle has an axis, \<^verbatim>\<open>produce\<close> does not put three empty products without
  an error, whatever the accessor of the absent association of space points does; and when
  the association of axes is absent and its accessor throws for the first particle, the
  exception leaves \<^verbatim>\<open>produce\<close>.
\<close>

theorem absent_associations:
  assumes "pfPartToPCAxisAssns evt = Unreadable atAxes
           \<or> spacePointAssnVec evt = Unreadable atPoints"
  shows "(pfParticleHandle evt = None \<or> pcaxisHandle evt = None \<or> clusterHandle evt = None
            \<or> pfParticleHandle evt = Some []
          \<longrightarrow> produce cfg evt = Inr emptyProducts)
     \<and> (pfParticleHandle evt = Some pfs \<and> pfPartToPCAxisAssns evt = Rows axes
          \<and> length axes = length pfs \<and> (\<forall>row\<in>set axes. row = [])
          \<longrightarrow> produce cfg evt = Inr emptyProducts)
     \<and> (pfParticleHandle evt = Some pfs \<and> pcaxisHandle evt \<noteq> None \<and> clusterHandle evt \<noteq> None
          \<and> pfPartToPCAxisAssns evt = Rows axes \<and> i < length pfs \<and> i < length axes
          \<and> axes ! i \<noteq> []
          \<longrightarrow> produce cfg evt \<noteq> Inr emptyProducts)
     \<and> (pfParticleHandle evt = Some pfs \<and> pfs \<noteq> [] \<and> pcaxisHandle evt \<noteq> None
          \<and> clusterHandle evt \<noteq> None \<and> pfPartToPCAxisAssns evt = Unreadable atAxes
          \<and> atAxes 0 = Inl e
          \<longrightarrow> produce cfg evt = Inl e)"
  using produce_no_particles [of evt cfg] produce_no_axes [of evt pfs axes cfg]
    produce_not_empty [of evt pfs axes i cfg] produce_axes_unreadable [of evt pfs atAxes e cfg]
  by blast

theorem absent_associations_witness:
  "spacePointAssnVec evtThrows = Unreadable atThrows
   \<and> pfParticleHandle (evtThrows\<lparr>pcaxisHandle := None\<rparr>) \<noteq> None
   \<and> pcaxisHandle (evtThrows\<lparr>pcaxisHandle := None\<rparr>) = None
   \<and> produce cfg0 (evtThrows\<lparr>pcaxisHandle := None\<rparr>) = Inr emptyProducts
   \<and> produce cfg0 (evtThrows\<lparr>pfParticleHandle := Some []\<rparr>) = Inr emptyProducts
   \<and> produce cfg0 (evtThrows\<lparr>pfPartToPCAxisAssns := Rows [ [], [], []]\<rparr>) = Inr emptyProducts
   \<and> pfPartToPCAxisAssns evtThrows = Rows [ [axis5, axis3], [], [axis3]]
   \<and> produce cfg0 evtThrows \<noteq> Inr emptyProducts
   \<and> produce cfg0 evtEmptyRow \<noteq> Inr emptyProducts
   \<and> pfPartToPCAxisAssns evtNoAxisAssns = Unreadable atThrows
   \<and> produce cfg0 evtNoAxisAssns = Inl art_Exception"
proof -
  let ?pfs = "[\<lparr>Self = 0\<rparr>, \<lparr>Self = 1\<rparr>, \<lparr>Self = 2\<rparr>]"
  let ?axes = "[ [axis5, axis3], [], [axis3]]"
  have a: "produce cfg0 (evtThrows\<lparr>pcaxisHandle := None\<rparr>) = Inr emptyProducts"
    using absent_associations [of "evtThrows\<lparr>pcaxisHandle := None\<rparr>" atThrows atThrows cfg0]
    by (simp add: evtThrows_def evtA_def)
  have b: "produce cfg0 (evtThrows\<lparr>pfParticleHandle := Some []\<rparr>) = Inr emptyProducts"
    using absent_associations [of "evtThrows\<lparr>pfParticleHandle := Some []\<rparr>" atThrows atThrows cfg0]
    by (simp add: evtThrows_def evtA_def)
  have c: "produce cfg0 (evtThrows\<lparr>pfPartToPCAxisAssns := Rows [ [], [], []]\<rparr>)
             = Inr emptyProducts"
    using absent_associations [of "evtThrows\<lparr>pfPartToPCAxisAssns := Rows [ [], [], []]\<rparr>"
        atThrows atThrows cfg0 ?pfs "[ [], [], []]"]
    by (simp add: evtThrows_def evtA_def)
  have d: "produce cfg0 evtThrows \<noteq> Inr emptyProducts"
    using absent_associations [of evtThrows atThrows atThrows cfg0 ?pfs ?axes 0]
    by (simp add: evtThrows_def evtA_def)
  have e: "produce cfg0 evtEmptyRow \<noteq> Inr emptyProducts"
    using absent_associations [of evtEmptyRow atThrows atEmptyRow cfg0 ?pfs ?axes 0]
    by (simp add: evtEmptyRow_def evtA_def)
  have f: "produce cfg0 evtNoAxisAssns = Inl art_Exception"
    using absent_associations [of evtNoAxisAssns atThrows atThrows cfg0 ?pfs ?axes 0 art_Exception]
    by (simp add: evtNoAxisAssns_def evtA_def atThrows_def)
  from a b c d e f show ?thesis
    by (simp add: evtThrows_def evtNoAxisAssns_def evtA_def)
qed

subsection \<open>A particle with two axes\<close>

text \<open>
  C7. When a particle has exactly two axes \<open>[a, b]\<close> and the first has the strictly larger
  id, the pair is swapped, and otherwise it is left as it is; the first axis of the resulting
  pair is the one the tag of the particle is computed from. Listed with ids 5 and 3, the axis
  with id 3 is the one used.
\<close>

theorem canonical_axis_of_pair:
  "orderAxes [a, b] = (if getID a > getID b then [b, a] else [a, b])
   \<and> hd (orderAxes [a, b]) = (if getID a > getID b then b else a)
   \<and> (FindManyP_at (pfPartToPCAxisAssns evt) i = Inr [a, b]
        \<longrightarrow> tagPFParticle cfg evt i prods = Inr prods'
        \<longrightarrow> particleTag cfg evt i (if getID a > getID b then b else a)
              = Inr (last (cosmicTagPFParticleVector prods')))"
proof (intro conjI impI)
  show "orderAxes [a, b] = (if getID a > getID b then [b, a] else [a, b])"
    by (simp add: orderAxes_def)
  then show "hd (orderAxes [a, b]) = (if getID a > getID b then b else a)"
    by simp
next
  assume row: "FindManyP_at (pfPartToPCAxisAssns evt) i = Inr [a, b]"
    and run: "tagPFParticle cfg evt i prods = Inr prods'"
  have "hd (orderAxes [a, b]) = (if getID a > getID b then b else a)"
    by (simp add: orderAxes_def)
  with tagPFParticle_Inr [OF run] row
  show "particleTag cfg evt i (if getID a > getID b then b else a)
          = Inr (last (cosmicTagPFParticleVector prods'))"
    by auto
qed

theorem canonical_axis_of_pair_witness:
  "getID axis5 = 5 \<and> getID axis3 = 3
   \<and> orderAxes [axis5, axis3] = [axis3, axis5] \<and> hd (orderAxes [axis5, axis3]) = axis3
   \<and> FindManyP_at (pfPartToPCAxisAssns evtA) 0 = Inr [axis5, axis3]
   \<and> particleTag cfg0 evtA 0 axis3 = Inr tagA0"
  using canonical_axis_of_pair [of axis5 axis3 evtA 0 cfg0 emptyProducts
      "\<lparr>cosmicTagPFParticleVector = [tagA0], assnOutCosmicTagPFParticle = [(0, 0)],
        assnOutCosmicTagPCAxis = [(axis3, 0), (axis5, 0)]\<rparr>"]
    tagPFParticle_evtA_0
  by (simp add: axes_A axis3_def axis5_def)

subsection \<open>The score of a tag\<close>

text \<open>
  C8. Every tag that \<^verbatim>\<open>produce\<close> emits has a score among 0, 0.4, 0.5 and 1, and the score is
  the value the table \<^const>\<open>scoreOfKind\<close> gives for the kind of the tag: 0 for NotTagged,
  0.4 for Geometry_ZZ, 0.5 for Geometry_X, Geometry_Y and Geometry_Z, and 1 for
  OutsideDrift_Partial and the other Geometry kinds.
\<close>

theorem score_function_of_kind:
  assumes "produce cfg evt = Inr prods" and "t \<in> set (cosmicTagPFParticleVector prods)"
  shows "fCosmicScore t = scoreOfKind (fCosmicType t) \<and> fCosmicScore t \<in> {0, 0.4, 0.5, 1}"
proof -
  have "\<forall>t\<in>set (cosmicTagPFParticleVector prods). fCosmicScore t = scoreOfKind (fCosmicType t)"
    using assms(1) by (rule produce_tags) (rule particleTag_score)
  with assms(2) have "fCosmicScore t = scoreOfKind (fCosmicType t)" by blast
  then show ?thesis using scoreOfKind_values [of "fCosmicType t"] by simp
qed

theorem score_function_of_kind_witness:
  "produce cfg0 evtA = Inr prodsA \<and> tagA2 \<in> set (cosmicTagPFParticleVector prodsA)
   \<and> fCosmicType tagA2 = kOutsideDrift_Partial
   \<and> fCosmicScore tagA2 = scoreOfKind kOutsideDrift_Partial \<and> fCosmicScore tagA2 = 1"
  using score_function_of_kind [OF produce_evtA, of tagA2]
  by (simp add: produce_evtA prodsA_def tagA2_def)

subsection \<open>Tags and associations of an event\<close>

text \<open>
  C9. For an event whose three handles are valid, whose associations were read, with one
  row for each particle, and whose cluster ids are rows of the hit table, \<^verbatim>\<open>produce\<close> ends
  without an exception. With \<open>tagged\<close> the keys of the particles that have at least one axis,
  in increasing order: there is one tag for each of them, the \<open>k\<close>-th tag being the tag of
  the \<open>k\<close>-th such particle; the particle associations pair the \<open>k\<close>-th such particle with
  tag \<open>k\<close>; the axis associations list, for each such particle in turn, every axis of its
  row (the row as given, or reversed) with the index of its tag. A particle without an axis
  has no tag and no association.
\<close>

theorem one_tag_per_particle_with_axis:
  assumes "pfParticleHandle evt = Some pfs" and "pcaxisHandle evt \<noteq> None"
    and "clusterHandle evt \<noteq> None"
    and "pfPartToPCAxisAssns evt = Rows axes" and "length axes = length pfs"
    and "clusterAssns evt = Rows clusters" and "length clusters = length pfs"
    and "spacePointAssnVec evt = Rows points" and "length points = length pfs"
    and "clusterHitAssns evt = Rows hits"
    and "\<forall>clusterVec\<in>set clusters. \<forall>c\<in>set clusterVec. size_t_of_int (ID c) < length hits"
  shows "\<exists>prods. produce cfg evt = Inr prods \<and>
     (let tagged = filter (\<lambda>i. axes ! i \<noteq> []) [0 ..< length pfs];
          tags = cosmicTagPFParticleVector prods
      in length tags = length tagged
         \<and> (\<forall>k<length tagged.
               particleTag cfg evt (tagged ! k) (hd (orderAxes (axes ! (tagged ! k))))
                 = Inr (tags ! k))
         \<and> assnOutCosmicTagPFParticle prods = zip tagged [0 ..< length tagged]
         \<and> assnOutCosmicTagPCAxis prods =
             concat (map (\<lambda>(i, k). map (\<lambda>a. (a, k)) (orderAxes (axes ! i)))
                       (zip tagged [0 ..< length tagged]))
         \<and> (\<forall>i<length pfs. axes ! i = [] \<longrightarrow>
               i \<notin> fst ` set (assnOutCosmicTagPFParticle prods))
         \<and> (\<forall>i<length pfs. orderAxes (axes ! i) = axes ! i
               \<or> orderAxes (axes ! i) = rev (axes ! i)))"
proof -
  let ?tagged = "filter (\<lambda>i. axes ! i \<noteq> []) [0 ..< length pfs]"
  have wf: "\<forall>i\<in>set [0 ..< length pfs]. i < length axes \<and> i < length clusters
             \<and> i < length points
             \<and> (\<forall>c\<in>set (clusters ! i). size_t_of_int (ID c) < length hits)"
  proof
    fix i assume "i \<in> set [0 ..< length pfs]"
    then have i: "i < length pfs" by simp
    with assms(7) have "clusters ! i \<in> set clusters" by simp
    with assms(11) have "\<forall>c\<in>set (clusters ! i). size_t_of_int (ID c) < length hits"
      by blast
    with i assms(5,7,9) show "i < length axes \<and> i < length clusters \<and> i < length points
             \<and> (\<forall>c\<in>set (clusters ! i). size_t_of_int (ID c) < length hits)"
      by simp
  qed
  from pfParticleLoop_total [OF assms(4,6,8,10) wf] obtain prods where
    loop: "pfParticleLoop cfg evt [0 ..< length pfs] emptyProducts = Inr prods" by blast
  then have run: "produce cfg evt = Inr prods"
    by (simp add: produce_valid [OF assms(1-3)])
  from pfParticleLoop_Inr [OF assms(4) loop] obtain ts where
    tags: "cosmicTagPFParticleVector prods = ts"
    and rel: "list_all2 (\<lambda>i t. particleTag cfg evt i (hd (orderAxes (axes ! i))) = Inr t)
          ?tagged ts"
    and pf: "assnOutCosmicTagPFParticle prods = zip ?tagged [0 ..< length ts]"
    and ax: "assnOutCosmicTagPCAxis prods =
          concat (map (\<lambda>(i, k). map (\<lambda>a. (a, k)) (orderAxes (axes ! i)))
               (zip ?tagged [0 ..< length ts]))"
    by (auto simp: emptyProducts_def)
  from rel have len: "length ts = length ?tagged"
    by (simp add: list_all2_lengthD)
  from rel have nth: "\<forall>k<length ?tagged.
      particleTag cfg evt (?tagged ! k) (hd (orderAxes (axes ! (?tagged ! k)))) = Inr (ts ! k)"
    by (simp add: list_all2_conv_all_nth)
  have "map fst (zip ?tagged [0 ..< length ?tagged]) = ?tagged"
    by (rule map_fst_zip) simp
  then have "set (map fst (zip ?tagged [0 ..< length ?tagged])) = set ?tagged"
    by (rule arg_cong)
  then have keys: "fst ` set (assnOutCosmicTagPFParticle prods) = set ?tagged"
    unfolding pf len by (simp only: set_map)
  have none: "\<forall>i<length pfs. axes ! i = [] \<longrightarrow>
               i \<notin> fst ` set (assnOutCosmicTagPFParticle prods)"
    unfolding keys by simp
  show ?thesis
    apply (rule exI [of _ prods])
    unfolding Let_def tags
    using run len nth pf ax none orderAxes_cases by simp
qed

theorem one_tag_per_particle_with_axis_witness:
  "pfParticleHandle evtA = Some [\<lparr>Self = 0\<rparr>, \<lparr>Self = 1\<rparr>, \<lparr>Self = 2\<rparr>]
   \<and> pcaxisHandle evtA \<noteq> None \<and> clusterHandle evtA \<noteq> None
   \<and> pfPartToPCAxisAssns evtA = Rows [ [axis5, axis3], [], [axis3]]
   \<and> clusterAssns evtA = Rows [ [\<lparr>ID = 0\<rparr>], [], [\<lparr>ID = 0\<rparr>, \<lparr>ID = 1\<rparr>]]
   \<and> spacePointAssnVec evtA = Rows [ [pointAt 1 0 500, pointAt 255 0 500], [], []]
   \<and> clusterHitAssns evtA = Rows [ [hitInTime], [hitInTime, hitEarly, hitInTime]]
   \<and> produce cfg0 evtA = Inr prodsA
   \<and> length (cosmicTagPFParticleVector prodsA) = 2
   \<and> assnOutCosmicTagPFParticle prodsA = [(0, 0), (2, 1)]
   \<and> assnOutCosmicTagPCAxis prodsA = [(axis3, 0), (axis5, 0), (axis3, 1)]"
  using one_tag_per_particle_with_axis
    [of evtA "[\<lparr>Self = 0\<rparr>, \<lparr>Self = 1\<rparr>, \<lparr>Self = 2\<rparr>]"
        "[ [axis5, axis3], [], [axis3]]" "[ [\<lparr>ID = 0\<rparr>], [], [\<lparr>ID = 0\<rparr>, \<lparr>ID = 1\<rparr>]]"
        "[ [pointAt 1 0 500, pointAt 255 0 500], [], []]"
        "[ [hitInTime], [hitInTime, hitEarly, hitInTime]]" cfg0]
    produce_evtA
  by (simp add: evtA_def size_t_small prodsA_def)

subsection \<open>End points taken from the axis\<close>

text \<open>
  C10, as stated, fails. The axis \<^const>\<open>axisNegative\<close> has the dominant eigenvalue -4, so it is
  degenerate and the section that projects the space points does not run. The square root
  the code takes of -4 is NaN, and the tag holds NaN in each of its six coordinates, with
  or without space points: the end points are not the mean of the axis displaced along the
  principal direction, and hold no position.
\<close>

theorem negative_eigenvalue_counterexample:
  "elem0 (getEigenValues axisNegative) = - 4
   \<and> eigenVal0 axisNegative = NaN
   \<and> endPt1 (tagOf cfg0 axisNegative [] initialState) = [NaN, NaN, NaN]
   \<and> endPt2 (tagOf cfg0 axisNegative [] initialState) = [NaN, NaN, NaN]
   \<and> endPt1 (tagOf cfg0 axisNegative [pointAt 1 0 500, pointAt 255 0 500] initialState)
       = [NaN, NaN, NaN]
   \<and> endPt2 (tagOf cfg0 axisNegative [pointAt 1 0 500, pointAt 255 0 500] initialState)
       = [NaN, NaN, NaN]"
proof -
  have neg: "elem0 (getEigenValues axisNegative) < 0" by (simp add: axisNegative_eigen)
  show ?thesis
    by (simp add: tagOf_NaN [OF neg] eigenVal0_cases(2) [OF neg] axisNegative_eigen)
qed

text \<open>
  C10, amended. When the section that projects the space points does not run for a particle
  (the level is no longer 0 after the scan of the hits, or the particle has no space points,
  or the dominant eigenvalue is not positive, or the transverse spread is not positive) and
  the dominant eigenvalue is not negative, the end points of its tag are the mean of the
  axis minus, and plus, three times the square root of the dominant eigenvalue along the
  principal direction. When the dominant eigenvalue is negative, each of the six
  coordinates is NaN. In every case each end point of a tag has its three coordinates.
\<close>

theorem fallback_endpoints:
  "(isCosmic st \<noteq> 0 \<or> spacePointVec = [] \<or> elem0 (getEigenValues pcAxis) \<le> 0
      \<or> \<not> d_less (Fin 0) (transRMS pcAxis) \<longrightarrow>
      0 \<le> elem0 (getEigenValues pcAxis) \<longrightarrow>
      endPt1 (tagOf cfg pcAxis spacePointVec st) = map Fin (meanMinus3Sigma pcAxis)
      \<and> endPt2 (tagOf cfg pcAxis spacePointVec st) = map Fin (meanPlus3Sigma pcAxis))
   \<and> (elem0 (getEigenValues pcAxis) < 0 \<longrightarrow>
      endPt1 (tagOf cfg pcAxis spacePointVec st) = [NaN, NaN, NaN]
      \<and> endPt2 (tagOf cfg pcAxis spacePointVec st) = [NaN, NaN, NaN])
   \<and> length (endPt1 (tagOf cfg pcAxis spacePointVec st)) = 3
   \<and> length (endPt2 (tagOf cfg pcAxis spacePointVec st)) = 3"
proof (intro conjI impI)
  assume "isCosmic st \<noteq> 0 \<or> spacePointVec = [] \<or> elem0 (getEigenValues pcAxis) \<le> 0
      \<or> \<not> d_less (Fin 0) (transRMS pcAxis)"
    and nonneg: "0 \<le> elem0 (getEigenValues pcAxis)"
  then have skip: "isCosmic st \<noteq> 0 \<or> spacePointVec = []
      \<or> \<not> d_less (Fin 0) (eigenVal0 pcAxis) \<or> \<not> d_less (Fin 0) (transRMS pcAxis)"
    by (auto simp: eigenVal0_positive)
  show "endPt1 (tagOf cfg pcAxis spacePointVec st) = map Fin (meanMinus3Sigma pcAxis)"
    by (simp add: tagOf_skipped_Fin [OF skip nonneg])
  show "endPt2 (tagOf cfg pcAxis spacePointVec st) = map Fin (meanPlus3Sigma pcAxis)"
    by (simp add: tagOf_skipped_Fin [OF skip nonneg])
next
  assume neg: "elem0 (getEigenValues pcAxis) < 0"
  show "endPt1 (tagOf cfg pcAxis spacePointVec st) = [NaN, NaN, NaN]"
    by (simp add: tagOf_NaN [OF neg])
  show "endPt2 (tagOf cfg pcAxis spacePointVec st) = [NaN, NaN, NaN]"
    by (simp add: tagOf_NaN [OF neg])
next
  show "length (endPt1 (tagOf cfg pcAxis spacePointVec st)) = 3"
    by (simp add: tagOf_endPts Let_def)
  show "length (endPt2 (tagOf cfg pcAxis spacePointVec st)) = 3"
    by (simp add: tagOf_endPts Let_def)
qed

theorem fallback_endpoints_witness:
  "endPt1 (tagOf cfg0 axis3 [] initialState) = [Fin 122, Fin 0, Fin 500]
   \<and> endPt2 (tagOf cfg0 axis3 [] initialState) = [Fin 134, Fin 0, Fin 500]
   \<and> isCosmic flagged \<noteq> 0
   \<and> endPt1 (tagOf cfg0 axis3 [pointAt 1 0 500, pointAt 255 0 500] flagged)
       = [Fin 122, Fin 0, Fin 500]
   \<and> endPt2 (tagOf cfg0 axis3 [pointAt 1 0 500, pointAt 255 0 500] flagged)
       = [Fin 134, Fin 0, Fin 500]
   \<and> elem0 (getEigenValues axisZero) = 0
   \<and> endPt1 (tagOf cfg0 axisZero [pointAt 1 0 500, pointAt 255 0 500] initialState)
       = [Fin 128, Fin 0, Fin 500]
   \<and> endPt2 (tagOf cfg0 axisZero [pointAt 1 0 500, pointAt 255 0 500] initialState)
       = [Fin 128, Fin 0, Fin 500]
   \<and> elem0 (getEigenValues axisThin) = 4 \<and> \<not> d_less (Fin 0) (transRMS axisThin)
   \<and> endPt1 (tagOf cfg0 axisThin [pointAt 1 0 500, pointAt 255 0 500] initialState)
       = [Fin 122, Fin 0, Fin 500]
   \<and> endPt2 (tagOf cfg0 axisThin [pointAt 1 0 500, pointAt 255 0 500] initialState)
       = [Fin 134, Fin 0, Fin 500]
   \<and> elem0 (getEigenValues axisNegative) = - 4
   \<and> endPt1 (tagOf cfg0 axisNegative [pointAt 1 0 500, pointAt 255 0 500] initialState)
       = [NaN, NaN, NaN]
   \<and> endPt2 (tagOf cfg0 axisNegative [pointAt 1 0 500, pointAt 255 0 500] initialState)
       = [NaN, NaN, NaN]"
  using fallback_endpoints [of initialState "[]" axis3 cfg0]
    fallback_endpoints [of flagged "[pointAt 1 0 500, pointAt 255 0 500]" axis3 cfg0]
    fallback_endpoints [of initialState "[pointAt 1 0 500, pointAt 255 0 500]" axisZero cfg0]
    fallback_endpoints [of initialState "[pointAt 1 0 500, pointAt 255 0 500]" axisThin cfg0]
    fallback_endpoints [of initialState "[pointAt 1 0 500, pointAt 255 0 500]" axisNegative cfg0]
  by (simp add: sigma_axis3 sigma_axisZero sigma_axisThin axisNegative_eigen axis3_eigen
        flagged_def)

end
